theory Spec2Isabelle
  imports Complex_Main
begin

section \<open>The colour field of scratch-blocks (core/field_colour.js)\<close>

text \<open>
  A shallow embedding of \<^verbatim>\<open>Blockly.FieldColour\<close>. JavaScript identifiers that end in an
  underscore (\<^verbatim>\<open>colour_\<close>, \<^verbatim>\<open>sourceBlock_\<close>, \<^verbatim>\<open>showEditor_\<close>, ...) lose it here, since
  Isabelle does not accept such names. JavaScript numbers are modelled as rationals,
  strings as \<^typ>\<open>string\<close> (one \<^typ>\<open>char\<close> per code unit), exceptions as values of
  \<open>error\<close>: a function that can throw returns the exception (if any) next to the state
  it leaves behind, because every assignment made before the \<^verbatim>\<open>throw\<close> stays.
\<close>

type_synonym colour = string

type_synonym hsv = "rat \<times> rat \<times> rat"

datatype error = TypeError | Error string

subsection \<open>The colour conversions of the Closure Library\<close>

text \<open>
  \<^verbatim>\<open>goog.color.hexToHsv\<close> and \<^verbatim>\<open>goog.color.hsvToHex\<close> belong to the Closure Library,
  which field_colour.js requires and does not define. Every function of the field takes
  them as a parameter \<open>g\<close>; both may throw.
\<close>

record color_lib =
  hexToHsv :: "string \<Rightarrow> error + hsv"
  hsvToHex :: "rat \<Rightarrow> rat \<Rightarrow> rat \<Rightarrow> error + string"

subsection \<open>Numbers as text\<close>

text \<open>\<^verbatim>\<open>Math.floor(x).toFixed(0)\<close>: the decimal digits of a whole number.\<close>

definition digit :: "nat \<Rightarrow> char" where
  "digit n = ''0123456789'' ! (n mod 10)"

fun decimal :: "nat \<Rightarrow> string" where
  "decimal n = (if n < 10 then [digit n] else decimal (n div 10) @ [digit n])"

declare decimal.simps [simp del]

definition toFixed0 :: "int \<Rightarrow> string" where
  "toFixed0 i = (if i < 0 then CHR ''-'' # decimal (nat (- i)) else decimal (nat i))"

text \<open>\<^verbatim>\<open>Array.prototype.join\<close>.\<close>

fun join :: "string \<Rightarrow> string list \<Rightarrow> string" where
  "join sep [] = []"
| "join sep [x] = x"
| "join sep (x # y # ys) = x @ sep @ join sep (y # ys)"

subsection \<open>The host block, change events, sliders\<close>

text \<open>
  Modelled from the spec: the host block (core/block.js is not among the sources). The
  spec gives it an id, three colour slots (primary, secondary, tertiary) that
  \<^verbatim>\<open>setColour\<close> writes, and a category read from its parent block; \<open>parentBlock\<close> is the
  parent's category, \<open>None\<close> when \<^verbatim>\<open>parentBlock_\<close> is null.
\<close>

record block =
  block_id :: string
  colourPrimary :: colour
  colourSecondary :: colour
  colourTertiary :: colour
  parentBlock :: "string option"

definition setColour :: "colour \<Rightarrow> colour \<Rightarrow> colour \<Rightarrow> block \<Rightarrow> block" where
  "setColour c1 c2 c3 b = b\<lparr>colourPrimary := c1, colourSecondary := c2, colourTertiary := c3\<rparr>"

definition getColourTertiary :: "block \<Rightarrow> colour" where
  "getColourTertiary b = colourTertiary b"

text \<open>
  \<^verbatim>\<open>new Blockly.Events.BlockChange(block, element, name, oldValue, newValue)\<close>; the event
  keeps the block's id.
\<close>

datatype event =
  BlockChange (blockId: string) (element: string) (fieldName: string)
    (oldValue: colour) (newValue: colour)

text \<open>
  A \<^verbatim>\<open>goog.ui.Slider\<close> as this file configures it. A parameter that no setter was called
  for is \<open>None\<close>: it keeps the library's default.
\<close>

record slider =
  unitIncrement :: "rat option"
  step :: "rat option"
  minimum :: "rat option"
  maximum :: "rat option"
  rendered :: bool
  animatedValue :: "rat option"
  background :: "string option"

definition newSlider :: slider where
  "newSlider = \<lparr>unitIncrement = None, step = None, minimum = None, maximum = None,
     rendered = False, animatedValue = None, background = None\<rparr>"

definition setUnitIncrement :: "rat \<Rightarrow> slider \<Rightarrow> slider" where
  "setUnitIncrement v sl = sl\<lparr>unitIncrement := Some v\<rparr>"

definition setStep :: "rat \<Rightarrow> slider \<Rightarrow> slider" where
  "setStep v sl = sl\<lparr>step := Some v\<rparr>"

definition setMinimum :: "rat \<Rightarrow> slider \<Rightarrow> slider" where
  "setMinimum v sl = sl\<lparr>minimum := Some v\<rparr>"

definition setMaximum :: "rat \<Rightarrow> slider \<Rightarrow> slider" where
  "setMaximum v sl = sl\<lparr>maximum := Some v\<rparr>"

definition render :: "slider \<Rightarrow> slider" where
  "render sl = sl\<lparr>rendered := True\<rparr>"

definition animatedSetValue :: "rat \<Rightarrow> slider \<Rightarrow> slider" where
  "animatedSetValue v sl = sl\<lparr>animatedValue := Some v\<rparr>"

subsection \<open>The state\<close>

text \<open>
  What a validator returns: \<^verbatim>\<open>undefined\<close>, \<^verbatim>\<open>null\<close>, or a colour to use instead.
\<close>

datatype validation = Undefined | Null | Replace colour

text \<open>Listener handles, and what they listen on.\<close>

datatype key = Key nat

datatype target = HueSlider | SaturationSlider | BrightnessSlider | EyedropperButton

datatype node = LabelRow string | SliderNode target | ButtonNode

text \<open>
  One record holds the field instance (\<open>colour\<close> to \<open>brightnessReadout\<close>), the static
  slots of \<^verbatim>\<open>Blockly.FieldColour\<close> (\<open>activateEyedropper\<close> to \<open>eyedropperEventData\<close>), and
  what the field reaches of its surroundings: \<^verbatim>\<open>Blockly.Events\<close> (the enabled flag, the
  queue of fired events, the group), the registry of live listeners with its key counter,
  and \<^verbatim>\<open>Blockly.DropDownDiv\<close>. A readout is the \<^verbatim>\<open>innerHTML\<close> of its element, \<open>None\<close>
  while the element does not exist. The eyedropper hook is the list of colours it reports
  to the callback it is handed.
\<close>

record state =
  colour :: colour
  name :: string
  validator :: "(colour \<Rightarrow> validation) option"
  sourceBlock :: "block option"
  hueSlider :: "slider option"
  saturationSlider :: "slider option"
  brightnessSlider :: "slider option"
  hueReadout :: "string option"
  saturationReadout :: "string option"
  brightnessReadout :: "string option"
  activateEyedropper :: "colour list option"
  hueChangeEventKey :: "key option"
  saturationChangeEventKey :: "key option"
  brightnessChangeEventKey :: "key option"
  eyedropperEventData :: "key option"
  eventsEnabled :: bool
  fired :: "event list"
  group :: string
  listeners :: "(key \<times> target) list"
  nextKey :: nat
  dropDownContent :: "node list"
  dropDownVisible :: bool
  dropDownColour :: "string \<times> string"
  dropDownCategory :: string

text \<open>\<^verbatim>\<open>Blockly.Events.fire\<close>: queue the event, unless events are disabled.\<close>

definition fire :: "event \<Rightarrow> state \<Rightarrow> state" where
  "fire e s = (if eventsEnabled s then s\<lparr>fired := fired s @ [e]\<rparr> else s)"

subsection \<open>getValue, setValue\<close>

definition getValue :: "state \<Rightarrow> colour" where
  "getValue s = colour s"

datatype gradientType = Hue | Saturation | Brightness

text \<open>The \<^verbatim>\<open>switch\<close> of \<^verbatim>\<open>makeHueGradient\<close>: the stop for sample \<open>n\<close>.\<close>

fun gradientStop :: "color_lib \<Rightarrow> gradientType \<Rightarrow> hsv \<Rightarrow> nat \<Rightarrow> error + string" where
  "gradientStop g Hue (h, sa, v) n = hsvToHex g (of_nat n) sa v"
| "gradientStop g Saturation (h, sa, v) n = hsvToHex g h (of_nat n / 360) v"
| "gradientStop g Brightness (h, sa, v) n = hsvToHex g h sa (255 * of_nat n / 360)"

text \<open>The loop \<^verbatim>\<open>for (var n = 0; n <= 360; n++)\<close>; a throwing conversion ends it.\<close>

function stopsLoop ::
  "color_lib \<Rightarrow> gradientType \<Rightarrow> hsv \<Rightarrow> nat \<Rightarrow> string list \<Rightarrow> error + string list" where
  "stopsLoop g ty x n stops =
     (if n \<le> 360
      then (case gradientStop g ty x n of
              Inl e \<Rightarrow> Inl e
            | Inr c \<Rightarrow> stopsLoop g ty x (n + 1) (stops @ [c]))
      else Inr stops)"
  by pat_completeness auto
termination
  by (relation "measure (\<lambda>(g, ty, x, n, stops). 361 - n)") auto

declare stopsLoop.simps [simp del]

definition makeHueGradient :: "color_lib \<Rightarrow> colour \<Rightarrow> gradientType \<Rightarrow> error + string" where
  "makeHueGradient g c ty =
     (case hexToHsv g c of
        Inl e \<Rightarrow> Inl e
      | Inr x \<Rightarrow>
          (case stopsLoop g ty x 0 [] of
             Inl e \<Rightarrow> Inl e
           | Inr stops \<Rightarrow> Inr (''-webkit-linear-gradient(left, '' @ join '','' stops @ '')'')))"

text \<open>
  \<^verbatim>\<open>goog.style.setStyle(slider.getElement(), 'background', makeHueGradient(colour, type))\<close>:
  a missing slider is a TypeError, raised before the gradient is computed.
\<close>

definition setBackground ::
  "color_lib \<Rightarrow> colour \<Rightarrow> gradientType \<Rightarrow> slider option \<Rightarrow> error + slider" where
  "setBackground g c ty sl =
     (case sl of
        None \<Rightarrow> Inl TypeError
      | Some x \<Rightarrow>
          (case makeHueGradient g c ty of
             Inl e \<Rightarrow> Inl e
           | Inr bg \<Rightarrow> Inr (x\<lparr>background := Some bg\<rparr>)))"

text \<open>The three readouts (lines 137 to 140).\<close>

definition setReadouts :: "color_lib \<Rightarrow> colour \<Rightarrow> state \<Rightarrow> error option \<times> state" where
  "setReadouts g c s =
     (case hexToHsv g c of
        Inl e \<Rightarrow> (Some e, s)
      | Inr (h, sa, v) \<Rightarrow>
          (case hueReadout s of
             None \<Rightarrow> (Some TypeError, s)
           | Some _ \<Rightarrow>
               (let s1 = s\<lparr>hueReadout := Some (toFixed0 \<lfloor>100 * h / 360\<rfloor>)\<rparr> in
                case saturationReadout s1 of
                  None \<Rightarrow> (Some TypeError, s1)
                | Some _ \<Rightarrow>
                    (let s2 = s1\<lparr>saturationReadout := Some (toFixed0 \<lfloor>100 * sa\<rfloor>)\<rparr> in
                     case brightnessReadout s2 of
                       None \<Rightarrow> (Some TypeError, s2)
                     | Some _ \<Rightarrow>
                         (None, s2\<lparr>brightnessReadout :=
                                    Some (toFixed0 \<lfloor>100 * v / 255\<rfloor>)\<rparr>)))))"

text \<open>The body of \<^verbatim>\<open>if (this.hueSlider_) { ... }\<close> (lines 132 to 141).\<close>

definition refreshEditor :: "color_lib \<Rightarrow> colour \<Rightarrow> state \<Rightarrow> error option \<times> state" where
  "refreshEditor g c s =
     (case setBackground g c Hue (hueSlider s) of
        Inl e \<Rightarrow> (Some e, s)
      | Inr hs \<Rightarrow>
          (let s1 = s\<lparr>hueSlider := Some hs\<rparr> in
           case setBackground g c Saturation (saturationSlider s1) of
             Inl e \<Rightarrow> (Some e, s1)
           | Inr ss \<Rightarrow>
               (let s2 = s1\<lparr>saturationSlider := Some ss\<rparr> in
                case setBackground g c Brightness (brightnessSlider s2) of
                  Inl e \<Rightarrow> (Some e, s2)
                | Inr bs \<Rightarrow> setReadouts g c (s2\<lparr>brightnessSlider := Some bs\<rparr>))))"

definition setValue :: "color_lib \<Rightarrow> colour \<Rightarrow> state \<Rightarrow> error option \<times> state" where
  "setValue g c s =
     (let s1 = (case sourceBlock s of
                  Some b \<Rightarrow>
                    if eventsEnabled s \<and> colour s \<noteq> c
                    then fire (BlockChange (block_id b) ''field'' (name s) (colour s) c) s
                    else s
                | None \<Rightarrow> s);
          s2 = s1\<lparr>colour := c\<rparr>;
          s3 = (case sourceBlock s2 of
                  Some b \<Rightarrow> s2\<lparr>sourceBlock := Some (setColour c c (getColourTertiary b) b)\<rparr>
                | None \<Rightarrow> s2)
      in case hueSlider s3 of
           None \<Rightarrow> (None, s3)
         | Some _ \<Rightarrow> refreshEditor g c s3)"

text \<open>
  Modelled from the spec: the base class's \<^verbatim>\<open>init\<close> (core/field.js is not among the
  sources), which binds the field to its host block.
\<close>

definition Field_init :: "block \<Rightarrow> state \<Rightarrow> state" where
  "Field_init b s = s\<lparr>sourceBlock := Some b\<rparr>"

definition init :: "color_lib \<Rightarrow> block \<Rightarrow> state \<Rightarrow> error option \<times> state" where
  "init g b s = (let s1 = Field_init b s in setValue g (getValue s1) s1)"

subsection \<open>getText\<close>

text \<open>
  The regular expression \<^verbatim>\<open>/^#(.)\1(.)\2(.)\3$/\<close>: a hash and three doubled characters,
  nothing before or after. The dot takes any character but a line terminator (of those,
  line feed and carriage return are characters of \<^typ>\<open>char\<close>).
\<close>

definition lineTerminator :: "char \<Rightarrow> bool" where
  "lineTerminator ch = (ch = CHR 0x0A \<or> ch = CHR 0x0D)"

definition matchDoubled :: "string \<Rightarrow> (char \<times> char \<times> char) option" where
  "matchDoubled str =
     (case str of
        [h, r1, r2, g1, g2, b1, b2] \<Rightarrow>
          if h = CHR ''#'' \<and> \<not> lineTerminator r1 \<and> r2 = r1 \<and> \<not> lineTerminator g1 \<and> g2 = g1
             \<and> \<not> lineTerminator b1 \<and> b2 = b1
          then Some (r1, g1, b1) else None
      | _ \<Rightarrow> None)"

definition getText :: "state \<Rightarrow> string" where
  "getText s =
     (case matchDoubled (colour s) of
        Some (r, g, b) \<Rightarrow> [CHR ''#'', r, g, b]
      | None \<Rightarrow> colour s)"

text \<open>
  The form the spec names: \<^verbatim>\<open>#rrggbb\<close> with hexadecimal digits, the two digits of each
  channel equal.
\<close>

definition hexChar :: "char \<Rightarrow> bool" where
  "hexChar ch = (ch \<in> set ''0123456789abcdefABCDEF'')"

definition doubledHex :: "string \<Rightarrow> bool" where
  "doubledHex str =
     (case str of
        [h, r1, r2, g1, g2, b1, b2] \<Rightarrow>
          h = CHR ''#'' \<and> hexChar r1 \<and> r2 = r1 \<and> hexChar g1 \<and> g2 = g1 \<and> hexChar b1 \<and> b2 = b1
      | _ \<Rightarrow> False)"

subsection \<open>The validator, the slider handlers, the eyedropper\<close>

text \<open>
  Modelled from the spec: \<^verbatim>\<open>callValidator\<close> of the base class (core/field.js is not among
  the sources). The spec's validator contract: \<^verbatim>\<open>undefined\<close> accepts the colour as it
  is, \<^verbatim>\<open>null\<close> rejects it, any other string is used instead; without a validator the
  colour stands. \<open>None\<close> is JavaScript's \<^verbatim>\<open>null\<close>.
\<close>

definition callValidator :: "colour \<Rightarrow> state \<Rightarrow> colour option" where
  "callValidator c s =
     (case validator s of
        None \<Rightarrow> Some c
      | Some f \<Rightarrow> (case f c of Undefined \<Rightarrow> Some c | Null \<Rightarrow> None | Replace c' \<Rightarrow> Some c'))"

text \<open>
  The end of each of the three change handlers (lines 244 to 250, 263 to 269 and 296 to
  302, the same text): validate if the field is on a block, then set the value unless the
  result is \<^verbatim>\<open>null\<close>.
\<close>

definition commitColour :: "color_lib \<Rightarrow> colour \<Rightarrow> state \<Rightarrow> error option \<times> state" where
  "commitColour g c s =
     (let c' = (case sourceBlock s of Some _ \<Rightarrow> callValidator c s | None \<Rightarrow> Some c)
      in case c' of None \<Rightarrow> (None, s) | Some x \<Rightarrow> setValue g x s)"

text \<open>The change handlers of the three sliders; the argument is \<^verbatim>\<open>event.target.getValue()\<close>.\<close>

definition hueChange :: "color_lib \<Rightarrow> rat \<Rightarrow> state \<Rightarrow> error option \<times> state" where
  "hueChange g hue s =
     (case hexToHsv g (getValue s) of
        Inl e \<Rightarrow> (Some e, s)
      | Inr (h, sa, v) \<Rightarrow>
          (case hsvToHex g hue sa v of
             Inl e \<Rightarrow> (Some e, s)
           | Inr c \<Rightarrow> commitColour g c s))"

definition saturationChange :: "color_lib \<Rightarrow> rat \<Rightarrow> state \<Rightarrow> error option \<times> state" where
  "saturationChange g saturation s =
     (case hexToHsv g (getValue s) of
        Inl e \<Rightarrow> (Some e, s)
      | Inr (h, sa, v) \<Rightarrow>
          (case hsvToHex g h saturation v of
             Inl e \<Rightarrow> (Some e, s)
           | Inr c \<Rightarrow> commitColour g c s))"

definition brightnessChange :: "color_lib \<Rightarrow> rat \<Rightarrow> state \<Rightarrow> error option \<times> state" where
  "brightnessChange g brightness s =
     (case hexToHsv g (getValue s) of
        Inl e \<Rightarrow> (Some e, s)
      | Inr (h, sa, v) \<Rightarrow>
          (case hsvToHex g h sa brightness of
             Inl e \<Rightarrow> (Some e, s)
           | Inr c \<Rightarrow> commitColour g c s))"

text \<open>
  The callback handed to the eyedropper hook, \<^verbatim>\<open>function(value) { thisField.setValue(value); }\<close>,
  and \<^verbatim>\<open>activateEyedropperInternal_\<close>: the hook calls the callback for each colour it
  reports; calling a hook that is \<^verbatim>\<open>null\<close> is a TypeError.
\<close>

definition eyedropperCallback :: "color_lib \<Rightarrow> colour \<Rightarrow> state \<Rightarrow> error option \<times> state" where
  "eyedropperCallback g v s = setValue g v s"

fun reportPicks :: "color_lib \<Rightarrow> colour list \<Rightarrow> state \<Rightarrow> error option \<times> state" where
  "reportPicks g [] s = (None, s)"
| "reportPicks g (v # vs) s =
     (case eyedropperCallback g v s of
        (Some e, s') \<Rightarrow> (Some e, s')
      | (None, s') \<Rightarrow> reportPicks g vs s')"

definition activateEyedropperInternal :: "color_lib \<Rightarrow> state \<Rightarrow> error option \<times> state" where
  "activateEyedropperInternal g s =
     (case activateEyedropper s of
        None \<Rightarrow> (Some TypeError, s)
      | Some picks \<Rightarrow> reportPicks g picks s)"

subsection \<open>showEditor and widgetDispose\<close>

text \<open>
  Listener registration. \<^verbatim>\<open>goog.events.listen\<close> returns a fresh key and
  \<^verbatim>\<open>goog.events.unlistenByKey\<close> removes the listener of a key (none, if it is gone
  already). Modelled from the spec: \<^verbatim>\<open>Blockly.bindEventWithChecks_\<close> and
  \<^verbatim>\<open>Blockly.unbindEvent_\<close> (not among the sources), which register and unregister a
  handle the same way.
\<close>

definition listen :: "target \<Rightarrow> state \<Rightarrow> key \<times> state" where
  "listen t s =
     (Key (nextKey s),
      s\<lparr>listeners := listeners s @ [(Key (nextKey s), t)], nextKey := Suc (nextKey s)\<rparr>)"

definition unlistenByKey :: "key \<Rightarrow> state \<Rightarrow> state" where
  "unlistenByKey k s = s\<lparr>listeners := filter (\<lambda>(k', t). k' \<noteq> k) (listeners s)\<rparr>"

definition bindEventWithChecks :: "target \<Rightarrow> state \<Rightarrow> key \<times> state" where
  "bindEventWithChecks t s = listen t s"

definition unbindEvent :: "key \<Rightarrow> state \<Rightarrow> state" where
  "unbindEvent k s = unlistenByKey k s"

definition appendChild :: "node \<Rightarrow> state \<Rightarrow> state" where
  "appendChild n s = s\<lparr>dropDownContent := dropDownContent s @ [n]\<rparr>"

text \<open>Running a step that may throw after one that may have thrown.\<close>

definition andThen ::
  "error option \<times> state \<Rightarrow> (state \<Rightarrow> error option \<times> state) \<Rightarrow> error option \<times> state" where
  "andThen r f = (case r of (Some e, s) \<Rightarrow> (Some e, s) | (None, s) \<Rightarrow> f s)"

text \<open>
  \<^verbatim>\<open>createLabelDom_\<close>: the row that holds a label and its readout, and the (empty)
  \<^verbatim>\<open>innerHTML\<close> of the new readout.
\<close>

definition createLabelDom :: "string \<Rightarrow> node \<times> string" where
  "createLabelDom labelText = (LabelRow labelText, [])"

text \<open>
  Lines 194 to 232: the panel is hidden and emptied, then the three labelled readouts and
  sliders are built. Line 207 reads the hue of the current colour and throws on a string
  that is no colour, before any field of \<^verbatim>\<open>this\<close> but the hue readout is assigned.
\<close>

definition buildSliders :: "color_lib \<Rightarrow> state \<Rightarrow> error option \<times> state" where
  "buildSliders g s =
     (let s1 = s\<lparr>dropDownVisible := False, dropDownContent := []\<rparr>;
          hueElements = createLabelDom ''Hue'';
          s2 = (appendChild (fst hueElements) s1)\<lparr>hueReadout := Some (snd hueElements)\<rparr>;
          hue0 = render (setMaximum 359 (setMinimum 0 (setUnitIncrement 5 newSlider)));
          s3 = appendChild (SliderNode HueSlider) s2
      in case hexToHsv g (getValue s3) of
           Inl e \<Rightarrow> (Some e, s3)
         | Inr (h, sa, v) \<Rightarrow>
             (let hue1 = animatedSetValue h hue0;
                  saturationElements = createLabelDom ''Saturation'';
                  s4 = (appendChild (fst saturationElements) s3)
                         \<lparr>saturationReadout := Some (snd saturationElements)\<rparr>;
                  sat0 = render (setMaximum (99 / 100) (setMinimum (1 / 100)
                           (setStep (1 / 1000) (setUnitIncrement (1 / 100) newSlider))));
                  s5 = appendChild (SliderNode SaturationSlider) s4;
                  brightnessElements = createLabelDom ''Brightness'';
                  s6 = (appendChild (fst brightnessElements) s5)
                         \<lparr>brightnessReadout := Some (snd brightnessElements)\<rparr>;
                  bri0 = render (setMaximum 255 (setMinimum 5 (setUnitIncrement 2 newSlider)));
                  s7 = appendChild (SliderNode BrightnessSlider) s6
              in (None, s7\<lparr>hueSlider := Some hue1, saturationSlider := Some sat0,
                             brightnessSlider := Some bri0\<rparr>)))"

text \<open>
  Lines 235 to 303: a change listener on the hue and on the saturation slider, the
  eyedropper button (its image left out) with its listener if the hook is set, a change
  listener on the brightness slider; each handle goes into its static slot.
\<close>

definition registerListeners :: "state \<Rightarrow> state" where
  "registerListeners s =
     (let s1 = (case listen HueSlider s of (k, t) \<Rightarrow> t\<lparr>hueChangeEventKey := Some k\<rparr>);
          s2 = (case listen SaturationSlider s1 of (k, t) \<Rightarrow> t\<lparr>saturationChangeEventKey := Some k\<rparr>);
          s3 = (case activateEyedropper s2 of
                  None \<Rightarrow> s2
                | Some _ \<Rightarrow>
                    (case bindEventWithChecks EyedropperButton (appendChild ButtonNode s2) of
                       (k, t) \<Rightarrow> t\<lparr>eyedropperEventData := Some k\<rparr>))
      in case listen BrightnessSlider s3 of (k, t) \<Rightarrow> t\<lparr>brightnessChangeEventKey := Some k\<rparr>)"

text \<open>
  Lines 305 to 307: colour, category and position of the panel. The category is read from
  the parent of the source block: a TypeError if either is missing.
\<close>

definition positionPanel :: "state \<Rightarrow> error option \<times> state" where
  "positionPanel s =
     (let s1 = s\<lparr>dropDownColour := (''#ffffff'', ''#dddddd'')\<rparr>
      in case sourceBlock s1 of
           None \<Rightarrow> (Some TypeError, s1)
         | Some b \<Rightarrow>
             (case parentBlock b of
                None \<Rightarrow> (Some TypeError, s1)
              | Some category \<Rightarrow>
                  (None, s1\<lparr>dropDownCategory := category, dropDownVisible := True\<rparr>)))"

text \<open>
  Lines 309 to 311: the sliders are moved to the current colour. The model records the
  value each slider is sent to. The CHANGE events that the slider library dispatches
  while it moves a slider (the listeners are registered by then) are not run inside this
  step: each is a call of \<open>hueChange\<close>, \<open>saturationChange\<close> or \<open>brightnessChange\<close> of its
  own, after it. So \<open>showEditor\<close> below is \<^verbatim>\<open>showEditor_\<close> up to those handler calls, and
  what it is shown to keep (the stored colour, the event queue) is kept up to them.
\<close>

definition syncSliders :: "color_lib \<Rightarrow> state \<Rightarrow> error option \<times> state" where
  "syncSliders g s =
     (case hexToHsv g (getValue s) of
        Inl e \<Rightarrow> (Some e, s)
      | Inr (h, sa, v) \<Rightarrow>
          (None, s\<lparr>brightnessSlider := map_option (animatedSetValue v) (brightnessSlider s),
                    saturationSlider := map_option (animatedSetValue sa) (saturationSlider s),
                    hueSlider := map_option (animatedSetValue h) (hueSlider s)\<rparr>))"

definition showEditor :: "color_lib \<Rightarrow> state \<Rightarrow> error option \<times> state" where
  "showEditor g s =
     andThen (buildSliders g s) (\<lambda>s1.
     andThen (positionPanel (registerListeners s1)) (\<lambda>s2.
     andThen (syncSliders g s2) (\<lambda>s3.
     setValue g (getValue s3) s3)))"

text \<open>\<^verbatim>\<open>Blockly.Events.setGroup(false)\<close>: no group.\<close>

definition clearGroup :: "state \<Rightarrow> state" where
  "clearGroup s = s\<lparr>group := []\<rparr>"

definition widgetDispose :: "state \<Rightarrow> state" where
  "widgetDispose s =
     (let s1 = (case hueChangeEventKey s of Some k \<Rightarrow> unlistenByKey k s | None \<Rightarrow> s);
          s2 = (case saturationChangeEventKey s1 of Some k \<Rightarrow> unlistenByKey k s1 | None \<Rightarrow> s1);
          s3 = (case brightnessChangeEventKey s2 of Some k \<Rightarrow> unlistenByKey k s2 | None \<Rightarrow> s2);
          s4 = (case eyedropperEventData s3 of Some k \<Rightarrow> unbindEvent k s3 | None \<Rightarrow> s3)
      in clearGroup s4)"

subsection \<open>A colour conversion to run the field with\<close>

text \<open>
  Modelled from the spec: the conversion between hex strings and HSV, with hue in degrees,
  saturation from 0 to 1 and brightness from 0 to 255, as the Closure Library computes it
  (\<^verbatim>\<open>goog.color\<close>, not among the sources), over the rationals. The general theorems below
  hold for every conversion; this one supplies the concrete inputs of the examples.
\<close>

definition hexDigit :: "char \<Rightarrow> nat option" where
  "hexDigit ch =
     map_of (zip ''0123456789abcdefABCDEF''
       [0, 1, 2, 3, 4, 5, 6, 7, 8, 9, 10, 11, 12, 13, 14, 15, 10, 11, 12, 13, 14, 15]) ch"

fun hexDigits :: "string \<Rightarrow> nat list option" where
  "hexDigits [] = Some []"
| "hexDigits (ch # cs) =
     (case hexDigit ch of
        None \<Rightarrow> None
      | Some d \<Rightarrow> (case hexDigits cs of None \<Rightarrow> None | Some ds \<Rightarrow> Some (d # ds)))"

definition goog_hexToRgb :: "string \<Rightarrow> error + rat \<times> rat \<times> rat" where
  "goog_hexToRgb hex =
     (case hex of
        [] \<Rightarrow> Inl (Error hex)
      | ch # cs \<Rightarrow>
          if ch \<noteq> CHR ''#'' then Inl (Error hex)
          else (case hexDigits cs of
                  Some [r, g, b] \<Rightarrow> Inr (of_nat (17 * r), of_nat (17 * g), of_nat (17 * b))
                | Some [r1, r2, g1, g2, b1, b2] \<Rightarrow>
                    Inr (of_nat (16 * r1 + r2), of_nat (16 * g1 + g2), of_nat (16 * b1 + b2))
                | _ \<Rightarrow> Inl (Error hex)))"

definition goog_rgbToHsv :: "rat \<times> rat \<times> rat \<Rightarrow> hsv" where
  "goog_rgbToHsv rgb =
     (case rgb of (red, green, blue) \<Rightarrow>
        (let mx = max (max red green) blue; mn = min (min red green) blue in
         if mn = mx then (0, 0, mx)
         else
           (let delta = mx - mn;
                hue = 60 * (if red = mx then (green - blue) / delta
                            else if green = mx then 2 + (blue - red) / delta
                            else 4 + (red - green) / delta);
                hue = (if hue < 0 then hue + 360 else hue);
                hue = (if hue > 360 then hue - 360 else hue)
            in (hue, delta / mx, mx))))"

definition goog_hsvToRgb :: "rat \<Rightarrow> rat \<Rightarrow> rat \<Rightarrow> int \<times> int \<times> int" where
  "goog_hsvToRgb h s brightness =
     (if s = 0 then (\<lfloor>brightness\<rfloor>, \<lfloor>brightness\<rfloor>, \<lfloor>brightness\<rfloor>)
      else
        (let sextant = \<lfloor>h / 60\<rfloor>;
             remainder = h / 60 - of_int sextant;
             val1 = brightness * (1 - s);
             val2 = brightness * (1 - s * remainder);
             val3 = brightness * (1 - s * (1 - remainder))
         in if sextant = 1 then (\<lfloor>val2\<rfloor>, \<lfloor>brightness\<rfloor>, \<lfloor>val1\<rfloor>)
            else if sextant = 2 then (\<lfloor>val1\<rfloor>, \<lfloor>brightness\<rfloor>, \<lfloor>val3\<rfloor>)
            else if sextant = 3 then (\<lfloor>val1\<rfloor>, \<lfloor>val2\<rfloor>, \<lfloor>brightness\<rfloor>)
            else if sextant = 4 then (\<lfloor>val3\<rfloor>, \<lfloor>val1\<rfloor>, \<lfloor>brightness\<rfloor>)
            else if sextant = 5 then (\<lfloor>brightness\<rfloor>, \<lfloor>val1\<rfloor>, \<lfloor>val2\<rfloor>)
            else if sextant = 6 \<or> sextant = 0 then (\<lfloor>brightness\<rfloor>, \<lfloor>val3\<rfloor>, \<lfloor>val1\<rfloor>)
            else (0, 0, 0)))"

definition hex2 :: "int \<Rightarrow> string" where
  "hex2 n = [''0123456789abcdef'' ! nat (n div 16), ''0123456789abcdef'' ! nat (n mod 16)]"

definition goog_rgbToHex :: "int \<times> int \<times> int \<Rightarrow> error + string" where
  "goog_rgbToHex rgb =
     (case rgb of (r, g, b) \<Rightarrow>
        if 0 \<le> r \<and> r \<le> 255 \<and> 0 \<le> g \<and> g \<le> 255 \<and> 0 \<le> b \<and> b \<le> 255
        then Inr (CHR ''#'' # hex2 r @ hex2 g @ hex2 b)
        else Inl (Error ''not a valid RGB color''))"

definition goog_hexToHsv :: "string \<Rightarrow> error + hsv" where
  "goog_hexToHsv hex =
     (case goog_hexToRgb hex of Inl e \<Rightarrow> Inl e | Inr rgb \<Rightarrow> Inr (goog_rgbToHsv rgb))"

definition goog_hsvToHex :: "rat \<Rightarrow> rat \<Rightarrow> rat \<Rightarrow> error + string" where
  "goog_hsvToHex h s v = goog_rgbToHex (goog_hsvToRgb h s v)"

definition goog_color :: color_lib where
  "goog_color = \<lparr>hexToHsv = goog_hexToHsv, hsvToHex = goog_hsvToHex\<rparr>"

subsection \<open>Example states\<close>

text \<open>
  A red field that is on no block, with no panel and no listener; and a block with a
  parent, whose three colour slots differ from red.
\<close>

definition redField :: state where
  "redField =
     \<lparr>colour = ''#ff0000'', name = ''COLOUR'', validator = None, sourceBlock = None,
      hueSlider = None, saturationSlider = None, brightnessSlider = None,
      hueReadout = None, saturationReadout = None, brightnessReadout = None,
      activateEyedropper = None,
      hueChangeEventKey = None, saturationChangeEventKey = None,
      brightnessChangeEventKey = None, eyedropperEventData = None,
      eventsEnabled = True, fired = [], group = [],
      listeners = [], nextKey = 1,
      dropDownContent = [], dropDownVisible = False,
      dropDownColour = ([], []), dropDownCategory = []\<rparr>"

definition penBlock :: block where
  "penBlock =
     \<lparr>block_id = ''block1'', colourPrimary = ''#0fbd8c'', colourSecondary = ''#0da57a'',
      colourTertiary = ''#0b8e69'', parentBlock = Some ''pen''\<rparr>"

text \<open>A validator that rejects every colour.\<close>

definition rejectAll :: "colour \<Rightarrow> validation" where
  "rejectAll c = Null"

text \<open>The same field on the block, and with its panel opened.\<close>

definition attachedField :: state where
  "attachedField = snd (init goog_color penBlock redField)"

definition openField :: state where
  "openField = snd (showEditor goog_color attachedField)"

text \<open>
  The field on the block with the eyedropper hook set; with a validator that rejects
  every colour, on the block and with its panel opened; and with that validator on no
  block, after \<^verbatim>\<open>showEditor_\<close> (which then throws at line 306, the sliders built and the
  listeners registered).
\<close>

definition eyedropperField :: state where
  "eyedropperField = attachedField\<lparr>activateEyedropper := Some [''#00ff00'']\<rparr>"

definition guardedField :: state where
  "guardedField =
     snd (init goog_color penBlock
       (redField\<lparr>validator := Some rejectAll, activateEyedropper := Some [''#00ff00'']\<rparr>))"

definition guardedOpen :: state where
  "guardedOpen = snd (showEditor goog_color guardedField)"

definition detachedOpen :: state where
  "detachedOpen = snd (showEditor goog_color (redField\<lparr>validator := Some rejectAll\<rparr>))"

subsection \<open>Auxiliary notions\<close>

text \<open>
  What a slider was configured with (unit increment, step, minimum, maximum), and the
  state in which all three sliders and readouts of the panel exist.
\<close>

definition sliderConfig :: "slider \<Rightarrow> rat option \<times> rat option \<times> rat option \<times> rat option" where
  "sliderConfig sl = (unitIncrement sl, step sl, minimum sl, maximum sl)"

definition editorBuilt :: "state \<Rightarrow> bool" where
  "editorBuilt s =
     (hueSlider s \<noteq> None \<and> saturationSlider s \<noteq> None \<and> brightnessSlider s \<noteq> None
      \<and> hueReadout s \<noteq> None \<and> saturationReadout s \<noteq> None \<and> brightnessReadout s \<noteq> None)"

text \<open>
  The validator contract in the spec's words, for a candidate colour \<open>c\<close>: without a
  validator, or when it returns \<^verbatim>\<open>undefined\<close>, the candidate is committed through
  setValue; when it returns a colour, that colour is; when it returns \<^verbatim>\<open>null\<close>, nothing
  changes.
\<close>

definition validated :: "color_lib \<Rightarrow> colour \<Rightarrow> state \<Rightarrow> error option \<times> state" where
  "validated g c s =
     (case validator s of
        None \<Rightarrow> setValue g c s
      | Some f \<Rightarrow>
          (case f c of
             Undefined \<Rightarrow> setValue g c s
           | Null \<Rightarrow> (None, s)
           | Replace c' \<Rightarrow> setValue g c' s))"

section \<open>Properties\<close>

subsection \<open>What the panel refresh leaves alone\<close>

lemma setReadouts_frame:
  "colour (snd (setReadouts g c s)) = colour s"
  "fired (snd (setReadouts g c s)) = fired s"
  "sourceBlock (snd (setReadouts g c s)) = sourceBlock s"
  by (simp_all add: setReadouts_def Let_def split: sum.splits option.splits prod.splits)

lemma setReadouts_keeps:
  "name (snd (setReadouts g c s)) = name s"
  "validator (snd (setReadouts g c s)) = validator s"
  "hueSlider (snd (setReadouts g c s)) = hueSlider s"
  "saturationSlider (snd (setReadouts g c s)) = saturationSlider s"
  "brightnessSlider (snd (setReadouts g c s)) = brightnessSlider s"
  "activateEyedropper (snd (setReadouts g c s)) = activateEyedropper s"
  "hueChangeEventKey (snd (setReadouts g c s)) = hueChangeEventKey s"
  "saturationChangeEventKey (snd (setReadouts g c s)) = saturationChangeEventKey s"
  "brightnessChangeEventKey (snd (setReadouts g c s)) = brightnessChangeEventKey s"
  "eyedropperEventData (snd (setReadouts g c s)) = eyedropperEventData s"
  "eventsEnabled (snd (setReadouts g c s)) = eventsEnabled s"
  "listeners (snd (setReadouts g c s)) = listeners s"
  "nextKey (snd (setReadouts g c s)) = nextKey s"
  by (simp_all add: setReadouts_def Let_def split: sum.splits option.splits prod.splits)

lemma refreshEditor_frame:
  "colour (snd (refreshEditor g c s)) = colour s"
  "fired (snd (refreshEditor g c s)) = fired s"
  "sourceBlock (snd (refreshEditor g c s)) = sourceBlock s"
  by (simp_all add: refreshEditor_def Let_def setReadouts_frame split: sum.splits)

lemma refreshEditor_keeps:
  "name (snd (refreshEditor g c s)) = name s"
  "validator (snd (refreshEditor g c s)) = validator s"
  "activateEyedropper (snd (refreshEditor g c s)) = activateEyedropper s"
  "hueChangeEventKey (snd (refreshEditor g c s)) = hueChangeEventKey s"
  "saturationChangeEventKey (snd (refreshEditor g c s)) = saturationChangeEventKey s"
  "brightnessChangeEventKey (snd (refreshEditor g c s)) = brightnessChangeEventKey s"
  "eyedropperEventData (snd (refreshEditor g c s)) = eyedropperEventData s"
  "eventsEnabled (snd (refreshEditor g c s)) = eventsEnabled s"
  "listeners (snd (refreshEditor g c s)) = listeners s"
  "nextKey (snd (refreshEditor g c s)) = nextKey s"
  by (simp_all add: refreshEditor_def Let_def setReadouts_keeps split: sum.splits)

subsection \<open>setValue and getValue\<close>

lemma setValue_keeps:
  "name (snd (setValue g c s)) = name s"
  "validator (snd (setValue g c s)) = validator s"
  "activateEyedropper (snd (setValue g c s)) = activateEyedropper s"
  "hueChangeEventKey (snd (setValue g c s)) = hueChangeEventKey s"
  "saturationChangeEventKey (snd (setValue g c s)) = saturationChangeEventKey s"
  "brightnessChangeEventKey (snd (setValue g c s)) = brightnessChangeEventKey s"
  "eyedropperEventData (snd (setValue g c s)) = eyedropperEventData s"
  "eventsEnabled (snd (setValue g c s)) = eventsEnabled s"
  "listeners (snd (setValue g c s)) = listeners s"
  "nextKey (snd (setValue g c s)) = nextKey s"
  by (simp_all add: setValue_def Let_def fire_def refreshEditor_keeps
      split: option.splits)

lemma setValue_colour: "colour (snd (setValue g c s)) = c"
  by (simp add: setValue_def Let_def refreshEditor_frame split: option.splits)

lemma setValue_fired:
  "fired (snd (setValue g c s)) =
     fired s @
     (case sourceBlock s of
        Some b \<Rightarrow>
          if eventsEnabled s \<and> colour s \<noteq> c
          then [BlockChange (block_id b) ''field'' (name s) (colour s) c]
          else []
      | None \<Rightarrow> [])"
  by (cases "sourceBlock s"; cases "hueSlider s")
    (simp_all add: setValue_def Let_def fire_def refreshEditor_frame)

lemma setValue_sourceBlock:
  "sourceBlock (snd (setValue g c s)) =
     map_option (\<lambda>b. b\<lparr>colourPrimary := c, colourSecondary := c\<rparr>) (sourceBlock s)"
  by (simp add: setValue_def Let_def fire_def refreshEditor_frame setColour_def
      getColourTertiary_def split: option.splits)

text \<open>
  C5. For every string \<open>c\<close>, \<^verbatim>\<open>setValue(c)\<close> followed by \<^verbatim>\<open>getValue()\<close> returns exactly
  \<open>c\<close>: setValue stores the string as it is, whatever the colour conversions make of it
  (also when the refresh of an open panel throws on a malformed string, since the
  assignment comes first).
\<close>

theorem setValue_getValue:
  "getValue (snd (setValue g c s)) = c"
  by (simp add: getValue_def setValue_def Let_def refreshEditor_frame
      split: option.splits)

text \<open>
  C4. \<^verbatim>\<open>setValue(c)\<close> adds exactly one change event to the queue, carrying the id of the
  source block, the element \<^verbatim>\<open>'field'\<close>, the field's name, the old colour and the new
  one, when the field is on a block, events are enabled and \<open>c\<close> differs from the stored
  colour; otherwise it adds none. A second \<^verbatim>\<open>setValue(c)\<close> right after adds none, so the
  two calls together add at most one.
\<close>

theorem setValue_event:
  "fired (snd (setValue g c s)) =
     fired s @
     (case sourceBlock s of
        Some b \<Rightarrow>
          if eventsEnabled s \<and> colour s \<noteq> c
          then [BlockChange (block_id b) ''field'' (name s) (colour s) c]
          else []
      | None \<Rightarrow> [])
   \<and> fired (snd (setValue g c (snd (setValue g c s)))) = fired (snd (setValue g c s))
   \<and> length (fired (snd (setValue g c (snd (setValue g c s))))) \<le> length (fired s) + 1"
  by (simp add: setValue_fired setValue_colour setValue_keeps split: option.splits)

text \<open>
  C10. \<^verbatim>\<open>init(block)\<close> adds no change event to the queue, whether events are enabled
  or not: the colour it passes to setValue is the stored one.
\<close>

theorem init_no_event:
  "fired (snd (init g b s)) = fired s"
  by (simp add: init_def Let_def Field_init_def getValue_def setValue_fired)

text \<open>
  C7 (what the code does). On a block, \<^verbatim>\<open>setValue(c)\<close> writes \<open>c\<close> to the primary and
  the secondary slot of the block and hands the block its own tertiary colour back: the
  tertiary slot keeps what it held.
\<close>

theorem setValue_block_colours:
  "sourceBlock s = Some b \<Longrightarrow>
   sourceBlock (snd (setValue g c s)) = Some (b\<lparr>colourPrimary := c, colourSecondary := c\<rparr>)
   \<and> map_option colourTertiary (sourceBlock (snd (setValue g c s))) = Some (colourTertiary b)"
  by (simp add: setValue_sourceBlock)

theorem setValue_block_colours_witness:
  "sourceBlock (redField\<lparr>sourceBlock := Some penBlock\<rparr>) = Some penBlock
   \<and> map_option colourTertiary
       (sourceBlock (snd (setValue goog_color ''#ff0000''
          (redField\<lparr>sourceBlock := Some penBlock\<rparr>)))) = Some ''#0b8e69''"
  using setValue_block_colours
    [of "redField\<lparr>sourceBlock := Some penBlock\<rparr>" penBlock goog_color "''#ff0000''"]
  by (simp add: penBlock_def)

subsection \<open>The steps of showEditor\<close>

lemma snd_andThen:
  "snd (andThen r f) = (case fst r of Some e \<Rightarrow> snd r | None \<Rightarrow> snd (f (snd r)))"
  by (simp add: andThen_def split: prod.splits option.splits)

lemma fst_andThen:
  "fst (andThen r f) = (case fst r of Some e \<Rightarrow> Some e | None \<Rightarrow> fst (f (snd r)))"
  by (simp add: andThen_def split: prod.splits option.splits)

lemma buildSliders_keeps:
  "colour (snd (buildSliders g s)) = colour s"
  "name (snd (buildSliders g s)) = name s"
  "validator (snd (buildSliders g s)) = validator s"
  "sourceBlock (snd (buildSliders g s)) = sourceBlock s"
  "activateEyedropper (snd (buildSliders g s)) = activateEyedropper s"
  "hueChangeEventKey (snd (buildSliders g s)) = hueChangeEventKey s"
  "saturationChangeEventKey (snd (buildSliders g s)) = saturationChangeEventKey s"
  "brightnessChangeEventKey (snd (buildSliders g s)) = brightnessChangeEventKey s"
  "eyedropperEventData (snd (buildSliders g s)) = eyedropperEventData s"
  "eventsEnabled (snd (buildSliders g s)) = eventsEnabled s"
  "fired (snd (buildSliders g s)) = fired s"
  "listeners (snd (buildSliders g s)) = listeners s"
  "nextKey (snd (buildSliders g s)) = nextKey s"
  by (simp_all add: buildSliders_def Let_def appendChild_def getValue_def
      split: sum.splits prod.splits)

lemma registerListeners_keeps:
  "colour (registerListeners s) = colour s"
  "name (registerListeners s) = name s"
  "validator (registerListeners s) = validator s"
  "sourceBlock (registerListeners s) = sourceBlock s"
  "activateEyedropper (registerListeners s) = activateEyedropper s"
  "eventsEnabled (registerListeners s) = eventsEnabled s"
  "fired (registerListeners s) = fired s"
  "hueSlider (registerListeners s) = hueSlider s"
  "saturationSlider (registerListeners s) = saturationSlider s"
  "brightnessSlider (registerListeners s) = brightnessSlider s"
  "hueReadout (registerListeners s) = hueReadout s"
  "saturationReadout (registerListeners s) = saturationReadout s"
  "brightnessReadout (registerListeners s) = brightnessReadout s"
  by (simp_all add: registerListeners_def Let_def listen_def bindEventWithChecks_def
      appendChild_def split: option.splits)

lemma positionPanel_keeps:
  "colour (snd (positionPanel s)) = colour s"
  "name (snd (positionPanel s)) = name s"
  "validator (snd (positionPanel s)) = validator s"
  "sourceBlock (snd (positionPanel s)) = sourceBlock s"
  "activateEyedropper (snd (positionPanel s)) = activateEyedropper s"
  "hueChangeEventKey (snd (positionPanel s)) = hueChangeEventKey s"
  "saturationChangeEventKey (snd (positionPanel s)) = saturationChangeEventKey s"
  "brightnessChangeEventKey (snd (positionPanel s)) = brightnessChangeEventKey s"
  "eyedropperEventData (snd (positionPanel s)) = eyedropperEventData s"
  "eventsEnabled (snd (positionPanel s)) = eventsEnabled s"
  "fired (snd (positionPanel s)) = fired s"
  "listeners (snd (positionPanel s)) = listeners s"
  "nextKey (snd (positionPanel s)) = nextKey s"
  "hueSlider (snd (positionPanel s)) = hueSlider s"
  "saturationSlider (snd (positionPanel s)) = saturationSlider s"
  "brightnessSlider (snd (positionPanel s)) = brightnessSlider s"
  "hueReadout (snd (positionPanel s)) = hueReadout s"
  "saturationReadout (snd (positionPanel s)) = saturationReadout s"
  "brightnessReadout (snd (positionPanel s)) = brightnessReadout s"
  by (simp_all add: positionPanel_def Let_def split: option.splits)

lemma syncSliders_keeps:
  "colour (snd (syncSliders g s)) = colour s"
  "name (snd (syncSliders g s)) = name s"
  "validator (snd (syncSliders g s)) = validator s"
  "sourceBlock (snd (syncSliders g s)) = sourceBlock s"
  "activateEyedropper (snd (syncSliders g s)) = activateEyedropper s"
  "hueChangeEventKey (snd (syncSliders g s)) = hueChangeEventKey s"
  "saturationChangeEventKey (snd (syncSliders g s)) = saturationChangeEventKey s"
  "brightnessChangeEventKey (snd (syncSliders g s)) = brightnessChangeEventKey s"
  "eyedropperEventData (snd (syncSliders g s)) = eyedropperEventData s"
  "eventsEnabled (snd (syncSliders g s)) = eventsEnabled s"
  "fired (snd (syncSliders g s)) = fired s"
  "listeners (snd (syncSliders g s)) = listeners s"
  "nextKey (snd (syncSliders g s)) = nextKey s"
  "hueReadout (snd (syncSliders g s)) = hueReadout s"
  "saturationReadout (snd (syncSliders g s)) = saturationReadout s"
  "brightnessReadout (snd (syncSliders g s)) = brightnessReadout s"
  by (simp_all add: syncSliders_def Let_def split: sum.splits prod.splits)

lemma showEditor_keeps:
  "colour (snd (showEditor g s)) = colour s"
  "name (snd (showEditor g s)) = name s"
  "validator (snd (showEditor g s)) = validator s"
  "activateEyedropper (snd (showEditor g s)) = activateEyedropper s"
  "eventsEnabled (snd (showEditor g s)) = eventsEnabled s"
  by (simp_all add: showEditor_def snd_andThen getValue_def buildSliders_keeps
      registerListeners_keeps positionPanel_keeps syncSliders_keeps setValue_keeps
      setValue_colour split: option.splits)

lemma showEditor_attached:
  "(sourceBlock (snd (showEditor g s)) = None) = (sourceBlock s = None)"
  by (simp add: showEditor_def snd_andThen getValue_def buildSliders_keeps
      registerListeners_keeps positionPanel_keeps syncSliders_keeps setValue_sourceBlock
      split: option.splits)

subsection \<open>Listeners\<close>

lemma registerListeners_listeners:
  "listeners (registerListeners s) =
     listeners s @
     (case activateEyedropper s of
        None \<Rightarrow>
          [(Key (nextKey s), HueSlider), (Key (Suc (nextKey s)), SaturationSlider),
           (Key (Suc (Suc (nextKey s))), BrightnessSlider)]
      | Some _ \<Rightarrow>
          [(Key (nextKey s), HueSlider), (Key (Suc (nextKey s)), SaturationSlider),
           (Key (Suc (Suc (nextKey s))), EyedropperButton),
           (Key (Suc (Suc (Suc (nextKey s)))), BrightnessSlider)])"
  by (simp add: registerListeners_def Let_def listen_def bindEventWithChecks_def
      appendChild_def split: option.splits)

lemma registerListeners_keys:
  "hueChangeEventKey (registerListeners s) = Some (Key (nextKey s))"
  "saturationChangeEventKey (registerListeners s) = Some (Key (Suc (nextKey s)))"
  "brightnessChangeEventKey (registerListeners s) =
     (case activateEyedropper s of
        None \<Rightarrow> Some (Key (Suc (Suc (nextKey s))))
      | Some _ \<Rightarrow> Some (Key (Suc (Suc (Suc (nextKey s))))))"
  "eyedropperEventData (registerListeners s) =
     (case activateEyedropper s of
        None \<Rightarrow> eyedropperEventData s
      | Some _ \<Rightarrow> Some (Key (Suc (Suc (nextKey s)))))"
  by (simp_all add: registerListeners_def Let_def listen_def bindEventWithChecks_def
      appendChild_def split: option.splits)

lemma widgetDispose_listeners:
  "listeners (widgetDispose s) =
     filter (\<lambda>(k, t). Some k \<noteq> hueChangeEventKey s \<and> Some k \<noteq> saturationChangeEventKey s
                      \<and> Some k \<noteq> brightnessChangeEventKey s \<and> Some k \<noteq> eyedropperEventData s)
       (listeners s)"
  by (auto simp: widgetDispose_def Let_def unlistenByKey_def unbindEvent_def clearGroup_def
      split: option.splits intro!: filter_cong)

lemma showEditor_registry:
  "listeners (snd (showEditor g s)) =
     (case fst (buildSliders g s) of
        Some e \<Rightarrow> listeners s
      | None \<Rightarrow> listeners (registerListeners (snd (buildSliders g s))))"
  "hueChangeEventKey (snd (showEditor g s)) =
     (case fst (buildSliders g s) of
        Some e \<Rightarrow> hueChangeEventKey s
      | None \<Rightarrow> hueChangeEventKey (registerListeners (snd (buildSliders g s))))"
  "saturationChangeEventKey (snd (showEditor g s)) =
     (case fst (buildSliders g s) of
        Some e \<Rightarrow> saturationChangeEventKey s
      | None \<Rightarrow> saturationChangeEventKey (registerListeners (snd (buildSliders g s))))"
  "brightnessChangeEventKey (snd (showEditor g s)) =
     (case fst (buildSliders g s) of
        Some e \<Rightarrow> brightnessChangeEventKey s
      | None \<Rightarrow> brightnessChangeEventKey (registerListeners (snd (buildSliders g s))))"
  "eyedropperEventData (snd (showEditor g s)) =
     (case fst (buildSliders g s) of
        Some e \<Rightarrow> eyedropperEventData s
      | None \<Rightarrow> eyedropperEventData (registerListeners (snd (buildSliders g s))))"
  by (simp_all add: showEditor_def snd_andThen buildSliders_keeps positionPanel_keeps
      syncSliders_keeps setValue_keeps split: option.splits)

lemma buildSliders_fst:
  "fst (buildSliders g s) = (case hexToHsv g (colour s) of Inl e \<Rightarrow> Some e | Inr x \<Rightarrow> None)"
  by (simp add: buildSliders_def Let_def appendChild_def getValue_def
      split: sum.splits prod.splits)

lemma widgetDispose_showEditor_subset:
  "set (listeners (widgetDispose (snd (showEditor g s)))) \<subseteq> set (listeners s)"
  by (auto simp: widgetDispose_listeners showEditor_registry registerListeners_listeners
      registerListeners_keys buildSliders_keeps split: option.splits)

lemma showEditor_registers:
  "hexToHsv g (getValue s) = Inr x \<Longrightarrow>
   length (listeners (snd (showEditor g s))) =
     length (listeners s) + (case activateEyedropper s of None \<Rightarrow> 3 | Some _ \<Rightarrow> 4)"
  by (simp add: showEditor_registry registerListeners_listeners buildSliders_keeps
      buildSliders_fst getValue_def split: option.splits)

text \<open>
  C8. Opening the panel and then closing it leaves no live listener. Whatever
  \<^verbatim>\<open>showEditor_\<close> registered, \<^verbatim>\<open>widgetDispose_\<close> unregisters: the listeners left after the
  two are among those that were live before, however showEditor ended; so from a state
  with no listener the two end with none. And when the stored colour converts (line 207
  does not throw), showEditor had registered three listeners, four with the eyedropper
  hook set.
\<close>

theorem open_close_no_listeners:
  "set (listeners (widgetDispose (snd (showEditor g s)))) \<subseteq> set (listeners s)
   \<and> (listeners s = [] \<longrightarrow> listeners (widgetDispose (snd (showEditor g s))) = [])
   \<and> (hexToHsv g (getValue s) = Inr x \<longrightarrow>
        length (listeners (snd (showEditor g s))) =
          length (listeners s) + (case activateEyedropper s of None \<Rightarrow> 3 | Some _ \<Rightarrow> 4))"
proof (intro conjI impI)
  show sub: "set (listeners (widgetDispose (snd (showEditor g s)))) \<subseteq> set (listeners s)"
    by (rule widgetDispose_showEditor_subset)
  show "listeners (widgetDispose (snd (showEditor g s))) = []" if "listeners s = []"
    using sub that by simp
  show "length (listeners (snd (showEditor g s))) =
      length (listeners s) + (case activateEyedropper s of None \<Rightarrow> 3 | Some _ \<Rightarrow> 4)"
    if "hexToHsv g (getValue s) = Inr x"
    using that by (rule showEditor_registers)
qed

subsection \<open>Slider parameters\<close>

lemma setBackground_config:
  "setBackground g c ty sl = Inr x \<Longrightarrow> map_option sliderConfig sl = Some (sliderConfig x)"
  by (auto simp: setBackground_def sliderConfig_def split: option.splits sum.splits)

lemma refreshEditor_config:
  "map_option sliderConfig (hueSlider (snd (refreshEditor g c s))) = map_option sliderConfig (hueSlider s)"
  "map_option sliderConfig (saturationSlider (snd (refreshEditor g c s))) = map_option sliderConfig (saturationSlider s)"
  "map_option sliderConfig (brightnessSlider (snd (refreshEditor g c s))) = map_option sliderConfig (brightnessSlider s)"
  by (auto simp: refreshEditor_def Let_def setReadouts_keeps
      split: sum.splits dest: setBackground_config)

lemma setValue_config:
  "map_option sliderConfig (hueSlider (snd (setValue g c s))) = map_option sliderConfig (hueSlider s)"
  "map_option sliderConfig (saturationSlider (snd (setValue g c s))) = map_option sliderConfig (saturationSlider s)"
  "map_option sliderConfig (brightnessSlider (snd (setValue g c s))) = map_option sliderConfig (brightnessSlider s)"
  by (simp_all add: setValue_def Let_def fire_def refreshEditor_config split: option.splits)

lemma animatedSetValue_config:
  "map_option sliderConfig (map_option (animatedSetValue v) sl) = map_option sliderConfig sl"
  by (cases sl) (simp_all add: sliderConfig_def animatedSetValue_def)

lemma syncSliders_config:
  "map_option sliderConfig (hueSlider (snd (syncSliders g s))) = map_option sliderConfig (hueSlider s)"
  "map_option sliderConfig (saturationSlider (snd (syncSliders g s))) = map_option sliderConfig (saturationSlider s)"
  "map_option sliderConfig (brightnessSlider (snd (syncSliders g s))) = map_option sliderConfig (brightnessSlider s)"
  by (simp_all add: syncSliders_def animatedSetValue_config split: sum.splits prod.splits)

lemma buildSliders_config:
  assumes "hexToHsv g (colour s) = Inr x"
  shows "map_option sliderConfig (hueSlider (snd (buildSliders g s))) = Some (Some 5, None, Some 0, Some 359)"
    and "map_option sliderConfig (saturationSlider (snd (buildSliders g s))) =
           Some (Some (1 / 100), Some (1 / 1000), Some (1 / 100), Some (99 / 100))"
    and "map_option sliderConfig (brightnessSlider (snd (buildSliders g s))) = Some (Some 2, None, Some 5, Some 255)"
  using assms
  by (simp_all add: buildSliders_def Let_def appendChild_def getValue_def sliderConfig_def
      newSlider_def setUnitIncrement_def setStep_def setMinimum_def setMaximum_def render_def
      animatedSetValue_def del: map_option_eq_Some split: prod.splits)

lemma showEditor_config:
  assumes "hexToHsv g (colour s) = Inr x"
  shows "map_option sliderConfig (hueSlider (snd (showEditor g s))) = Some (Some 5, None, Some 0, Some 359)"
    and "map_option sliderConfig (saturationSlider (snd (showEditor g s))) =
           Some (Some (1 / 100), Some (1 / 1000), Some (1 / 100), Some (99 / 100))"
    and "map_option sliderConfig (brightnessSlider (snd (showEditor g s))) = Some (Some 2, None, Some 5, Some 255)"
  using assms
  by (simp_all add: showEditor_def snd_andThen buildSliders_fst buildSliders_config
      registerListeners_keeps positionPanel_keeps syncSliders_config setValue_config
      del: map_option_eq_Some split: option.splits)

text \<open>
  C9 (amended). When the stored colour is one the colour conversion accepts (so that
  line 207 does not throw), \<^verbatim>\<open>showEditor_\<close> leaves the field with three sliders of these
  parameters. Hue: range 0 to 359, unit increment 5, no step set. Saturation: range 0.01
  to 0.99, unit increment 0.01, step 0.001. Brightness: range 5 to 255, unit increment 2,
  no step set.
\<close>

theorem showEditor_sliders:
  assumes "hexToHsv g (getValue s) = Inr x"
  shows "\<exists>hs ss bs.
     hueSlider (snd (showEditor g s)) = Some hs
     \<and> minimum hs = Some 0 \<and> maximum hs = Some 359 \<and> unitIncrement hs = Some 5 \<and> step hs = None
     \<and> saturationSlider (snd (showEditor g s)) = Some ss
     \<and> minimum ss = Some (1 / 100) \<and> maximum ss = Some (99 / 100)
     \<and> unitIncrement ss = Some (1 / 100) \<and> step ss = Some (1 / 1000)
     \<and> brightnessSlider (snd (showEditor g s)) = Some bs
     \<and> minimum bs = Some 5 \<and> maximum bs = Some 255 \<and> unitIncrement bs = Some 2 \<and> step bs = None"
proof -
  from assms have c: "hexToHsv g (colour s) = Inr x"
    by (simp add: getValue_def)
  from showEditor_config(1) [OF c] obtain hs where
    hs: "hueSlider (snd (showEditor g s)) = Some hs" "sliderConfig hs = (Some 5, None, Some 0, Some 359)"
    by auto
  from showEditor_config(2) [OF c] obtain ss where
    ss: "saturationSlider (snd (showEditor g s)) = Some ss"
      "sliderConfig ss = (Some (1 / 100), Some (1 / 1000), Some (1 / 100), Some (99 / 100))"
    by auto
  from showEditor_config(3) [OF c] obtain bs where
    bs: "brightnessSlider (snd (showEditor g s)) = Some bs" "sliderConfig bs = (Some 2, None, Some 5, Some 255)"
    by auto
  from hs ss bs show ?thesis
    by (simp add: sliderConfig_def)
qed

subsection \<open>The readouts, and the conversion's range\<close>

lemma setReadouts_brightness:
  "fst (setReadouts g c s) = None \<Longrightarrow> hexToHsv g c = Inr (h, sa, v) \<Longrightarrow>
   brightnessReadout (snd (setReadouts g c s)) = Some (toFixed0 \<lfloor>100 * v / 255\<rfloor>)"
  by (simp add: setReadouts_def Let_def split: option.splits)

lemma refreshEditor_brightness:
  "fst (refreshEditor g c s) = None \<Longrightarrow> hexToHsv g c = Inr (h, sa, v) \<Longrightarrow>
   brightnessReadout (snd (refreshEditor g c s)) = Some (toFixed0 \<lfloor>100 * v / 255\<rfloor>)"
  by (auto simp: refreshEditor_def Let_def setReadouts_brightness split: sum.splits)

text \<open>
  C2 (amended). When \<^verbatim>\<open>setValue(c)\<close> runs with the panel built and returns, the
  brightness readout shows the brightness of \<open>c\<close> (a quantity from 0 to 255), times 100,
  divided by 255, rounded down; for \<^verbatim>\<open>#ff0000\<close> it shows 100.
\<close>

theorem setValue_brightness_readout:
  "hueSlider s \<noteq> None \<Longrightarrow> fst (setValue g c s) = None \<Longrightarrow> hexToHsv g c = Inr (h, sa, v) \<Longrightarrow>
   brightnessReadout (snd (setValue g c s)) = Some (toFixed0 \<lfloor>100 * v / 255\<rfloor>)"
  by (auto simp: setValue_def Let_def fire_def refreshEditor_brightness split: option.splits)

lemma hexDigit_le: "hexDigit ch = Some d \<Longrightarrow> d \<le> 15"
  by (auto simp: hexDigit_def split: if_splits)

lemma hexDigits_le: "hexDigits cs = Some ds \<Longrightarrow> d \<in> set ds \<Longrightarrow> d \<le> 15"
  by (induction cs arbitrary: ds) (auto split: option.splits dest: hexDigit_le)

lemma goog_hexToRgb_range:
  assumes "goog_hexToRgb hex = Inr (r, g, b)"
  shows "0 \<le> r \<and> r \<le> 255 \<and> 0 \<le> g \<and> g \<le> 255 \<and> 0 \<le> b \<and> b \<le> 255"
proof -
  from assms obtain ch cs ds where hex: "hex = ch # cs" and ds: "hexDigits cs = Some ds"
    by (auto simp: goog_hexToRgb_def split: list.splits if_splits option.splits)
  have le: "\<And>d. d \<in> set ds \<Longrightarrow> d \<le> 15"
    using hexDigits_le [OF ds] by blast
  from assms hex ds consider
      (short) x y z where "ds = [x, y, z]" "r = of_nat (17 * x)" "g = of_nat (17 * y)" "b = of_nat (17 * z)"
    | (long) x1 x2 y1 y2 z1 z2 where "ds = [x1, x2, y1, y2, z1, z2]"
        "r = of_nat (16 * x1 + x2)" "g = of_nat (16 * y1 + y2)" "b = of_nat (16 * z1 + z2)"
    by (auto simp: goog_hexToRgb_def split: list.splits if_splits)
  then show ?thesis
  proof cases
    case short
    with le have "x \<le> 15" "y \<le> 15" "z \<le> 15" by auto
    then have "17 * x \<le> 255" "17 * y \<le> 255" "17 * z \<le> 255" by auto
    then have "(of_nat (17 * x) :: rat) \<le> of_nat 255" "(of_nat (17 * y) :: rat) \<le> of_nat 255"
        "(of_nat (17 * z) :: rat) \<le> of_nat 255"
      by (simp_all only: of_nat_le_iff)
    with short show ?thesis by simp
  next
    case long
    with le have "x1 \<le> 15" "x2 \<le> 15" "y1 \<le> 15" "y2 \<le> 15" "z1 \<le> 15" "z2 \<le> 15" by auto
    then have "16 * x1 + x2 \<le> 255" "16 * y1 + y2 \<le> 255" "16 * z1 + z2 \<le> 255" by auto
    then have "(of_nat (16 * x1 + x2) :: rat) \<le> of_nat 255"
        "(of_nat (16 * y1 + y2) :: rat) \<le> of_nat 255" "(of_nat (16 * z1 + z2) :: rat) \<le> of_nat 255"
      by (simp_all only: of_nat_le_iff)
    with long show ?thesis by simp
  qed
qed

lemma goog_rgbToHsv_snd:
  "snd (goog_rgbToHsv (r, g, b)) =
     (if min (min r g) b = max (max r g) b then 0
      else (max (max r g) b - min (min r g) b) / max (max r g) b,
      max (max r g) b)"
  by (simp add: goog_rgbToHsv_def Let_def)

lemma goog_rgbToHsv_range:
  assumes "0 \<le> r" "r \<le> 255" "0 \<le> g" "g \<le> 255" "0 \<le> b" "b \<le> 255"
  shows "0 \<le> fst (snd (goog_rgbToHsv (r, g, b))) \<and> fst (snd (goog_rgbToHsv (r, g, b))) \<le> 1
    \<and> 0 \<le> snd (snd (goog_rgbToHsv (r, g, b))) \<and> snd (snd (goog_rgbToHsv (r, g, b))) \<le> 255"
proof -
  define mx where "mx = max (max r g) b"
  define mn where "mn = min (min r g) b"
  have mx: "0 \<le> mx" "mx \<le> 255" and mn: "0 \<le> mn" "mn \<le> mx"
    using assms unfolding mx_def mn_def by auto
  have eq: "snd (goog_rgbToHsv (r, g, b)) = (if mn = mx then 0 else (mx - mn) / mx, mx)"
    unfolding mx_def mn_def by (rule goog_rgbToHsv_snd)
  show ?thesis
  proof (cases "mn = mx")
    case True
    with mx show ?thesis unfolding eq by simp
  next
    case False
    from False mn have pos: "0 < mx" by linarith
    have "0 \<le> (mx - mn) / mx" using mn pos by simp
    moreover have "(mx - mn) / mx \<le> 1" using mn pos by simp
    ultimately show ?thesis using mx False unfolding eq by simp
  qed
qed

lemma goog_hexToHsv_range:
  assumes "goog_hexToHsv hex = Inr (h, sa, v)"
  shows "0 \<le> sa \<and> sa \<le> 1 \<and> 0 \<le> v \<and> v \<le> 255"
proof -
  from assms obtain r g b where rgb: "goog_hexToRgb hex = Inr (r, g, b)"
    and hsv: "goog_rgbToHsv (r, g, b) = (h, sa, v)"
    by (auto simp: goog_hexToHsv_def split: sum.splits)
  from goog_hexToRgb_range [OF rgb]
  have "0 \<le> fst (snd (goog_rgbToHsv (r, g, b))) \<and> fst (snd (goog_rgbToHsv (r, g, b))) \<le> 1
    \<and> 0 \<le> snd (snd (goog_rgbToHsv (r, g, b))) \<and> snd (snd (goog_rgbToHsv (r, g, b))) \<le> 255"
    by (intro goog_rgbToHsv_range) simp_all
  then show ?thesis
    unfolding hsv by simp
qed

lemma floor_byte:
  fixes x :: rat
  assumes "0 \<le> x" "x \<le> 255"
  shows "0 \<le> \<lfloor>x\<rfloor> \<and> \<lfloor>x\<rfloor> \<le> 255"
proof -
  have "\<lfloor>x\<rfloor> \<le> \<lfloor>255 :: rat\<rfloor>" using assms(2) by (rule floor_mono)
  with assms(1) show ?thesis by simp
qed

lemma scaled_byte:
  fixes v k :: rat
  assumes "0 \<le> v" "v \<le> 255" "0 \<le> k" "k \<le> 1"
  shows "0 \<le> v * k \<and> v * k \<le> 255"
proof -
  have "v * k \<le> v * 1" using assms by (intro mult_left_mono) auto
  with assms show ?thesis by simp
qed

lemma goog_hsvToRgb_components:
  "\<exists>r g b. goog_hsvToRgb h s v = (r, g, b)
     \<and> {r, g, b} \<subseteq> {\<lfloor>v\<rfloor>, \<lfloor>v * (1 - s)\<rfloor>, \<lfloor>v * (1 - s * (h / 60 - of_int \<lfloor>h / 60\<rfloor>))\<rfloor>,
                    \<lfloor>v * (1 - s * (1 - (h / 60 - of_int \<lfloor>h / 60\<rfloor>)))\<rfloor>, 0}"
  by (simp add: goog_hsvToRgb_def Let_def)

lemma goog_hsvToHex_total:
  assumes "0 \<le> s" "s \<le> 1" "0 \<le> v" "v \<le> 255"
  shows "\<exists>c. goog_hsvToHex h s v = Inr c"
proof -
  define q where "q = h / 60 - of_int \<lfloor>h / 60\<rfloor>"
  have q: "0 \<le> q" "q \<le> 1"
    unfolding q_def by linarith+
  have sq: "0 \<le> s * q" "s * q \<le> 1"
    using assms(1,2) q by (simp_all add: mult_le_one)
  have sq': "0 \<le> s * (1 - q)" "s * (1 - q) \<le> 1"
    using assms(1,2) q by (simp_all add: mult_le_one)
  have b0: "0 \<le> \<lfloor>v\<rfloor> \<and> \<lfloor>v\<rfloor> \<le> 255"
    using assms(3,4) by (rule floor_byte)
  have b1: "0 \<le> \<lfloor>v * (1 - s)\<rfloor> \<and> \<lfloor>v * (1 - s)\<rfloor> \<le> 255"
    using scaled_byte [OF assms(3,4), of "1 - s"] assms(1,2) by (intro floor_byte) auto
  have b2: "0 \<le> \<lfloor>v * (1 - s * q)\<rfloor> \<and> \<lfloor>v * (1 - s * q)\<rfloor> \<le> 255"
    using scaled_byte [OF assms(3,4), of "1 - s * q"] sq by (intro floor_byte) auto
  have b3: "0 \<le> \<lfloor>v * (1 - s * (1 - q))\<rfloor> \<and> \<lfloor>v * (1 - s * (1 - q))\<rfloor> \<le> 255"
    using scaled_byte [OF assms(3,4), of "1 - s * (1 - q)"] sq' by (intro floor_byte) auto
  have all: "\<And>x. x \<in> {\<lfloor>v\<rfloor>, \<lfloor>v * (1 - s)\<rfloor>, \<lfloor>v * (1 - s * q)\<rfloor>, \<lfloor>v * (1 - s * (1 - q))\<rfloor>, 0}
      \<Longrightarrow> 0 \<le> x \<and> x \<le> 255"
    using b0 b1 b2 b3 by auto
  from goog_hsvToRgb_components [of h s v] obtain r g b where
    rgb: "goog_hsvToRgb h s v = (r, g, b)"
    and sub: "{r, g, b} \<subseteq> {\<lfloor>v\<rfloor>, \<lfloor>v * (1 - s)\<rfloor>, \<lfloor>v * (1 - s * q)\<rfloor>, \<lfloor>v * (1 - s * (1 - q))\<rfloor>, 0}"
    unfolding q_def by blast
  from sub all have "0 \<le> r \<and> r \<le> 255" "0 \<le> g \<and> g \<le> 255" "0 \<le> b \<and> b \<le> 255"
    by blast+
  with rgb show ?thesis
    by (simp add: goog_hsvToHex_def goog_rgbToHex_def)
qed

subsection \<open>The panel refresh returns\<close>

lemma stopsLoop_total:
  "(\<And>n. n \<le> 360 \<Longrightarrow> \<exists>c. gradientStop g ty x n = Inr c) \<Longrightarrow>
   \<exists>ss. stopsLoop g ty x k stops = Inr ss"
proof (induction g ty x k stops rule: stopsLoop.induct)
  case (1 g ty x n stops)
  show ?case
  proof (cases "n \<le> 360")
    case True
    with "1.prems" obtain c where c: "gradientStop g ty x n = Inr c" by blast
    from "1.IH" [OF True c "1.prems"] True c show ?thesis
      by (subst stopsLoop.simps) simp
  next
    case False
    then show ?thesis by (subst stopsLoop.simps) simp
  qed
qed

lemma goog_gradientStop_total:
  assumes "0 \<le> sa" "sa \<le> 1" "0 \<le> v" "v \<le> 255" "n \<le> 360"
  shows "\<exists>c. gradientStop goog_color ty (h, sa, v) n = Inr c"
proof (cases ty)
  case Hue
  with goog_hsvToHex_total [OF assms(1-4)] show ?thesis
    by (simp add: goog_color_def)
next
  case Saturation
  have "(0::rat) \<le> of_nat n / 360" "(of_nat n :: rat) / 360 \<le> 1"
    using assms(5) by simp_all
  from goog_hsvToHex_total [OF this assms(3,4)] Saturation show ?thesis
    by (simp add: goog_color_def)
next
  case Brightness
  have "(of_nat n :: rat) \<le> 360"
    using assms(5) by simp
  then have "(0::rat) \<le> 255 * of_nat n / 360" "(255 * of_nat n :: rat) / 360 \<le> 255"
    by simp_all
  from goog_hsvToHex_total [OF assms(1,2) this] Brightness show ?thesis
    by (simp add: goog_color_def)
qed

lemma goog_makeHueGradient_total:
  assumes "goog_hexToHsv c = Inr x"
  shows "\<exists>bg. makeHueGradient goog_color c ty = Inr bg"
proof -
  obtain h sa v where x: "x = (h, sa, v)" by (cases x) auto
  from goog_hexToHsv_range [OF assms [unfolded x]]
  have "\<And>n. n \<le> 360 \<Longrightarrow> \<exists>c. gradientStop goog_color ty x n = Inr c"
    unfolding x by (intro goog_gradientStop_total) simp_all
  from stopsLoop_total [OF this, of 0 "[]"] obtain ss where
    "stopsLoop goog_color ty x 0 [] = Inr ss" by blast
  with assms show ?thesis
    by (simp add: makeHueGradient_def goog_color_def)
qed

lemma goog_setBackground_total:
  assumes "goog_hexToHsv c = Inr x" "sl \<noteq> None"
  shows "\<exists>y. setBackground goog_color c ty sl = Inr y"
  using goog_makeHueGradient_total [OF assms(1), of ty] assms(2)
  by (auto simp: setBackground_def)

lemma goog_setReadouts_returns:
  assumes "goog_hexToHsv c = Inr x"
    and "hueReadout s \<noteq> None" "saturationReadout s \<noteq> None" "brightnessReadout s \<noteq> None"
  shows "fst (setReadouts goog_color c s) = None"
  using assms by (cases x) (auto simp: setReadouts_def goog_color_def Let_def)

lemma goog_refreshEditor_returns:
  assumes "goog_hexToHsv c = Inr x" "editorBuilt s"
  shows "fst (refreshEditor goog_color c s) = None"
proof -
  from assms(2) have sl: "hueSlider s \<noteq> None" "saturationSlider s \<noteq> None" "brightnessSlider s \<noteq> None"
    and ro: "hueReadout s \<noteq> None" "saturationReadout s \<noteq> None" "brightnessReadout s \<noteq> None"
    by (simp_all add: editorBuilt_def)
  from goog_setBackground_total [OF assms(1) sl(1)] obtain hs where
    hs: "setBackground goog_color c Hue (hueSlider s) = Inr hs" by blast
  from goog_setBackground_total [OF assms(1) sl(2)] obtain ss where
    ss: "setBackground goog_color c Saturation (saturationSlider s) = Inr ss" by blast
  from goog_setBackground_total [OF assms(1) sl(3)] obtain bs where
    bs: "setBackground goog_color c Brightness (brightnessSlider s) = Inr bs" by blast
  show ?thesis
    using hs ss bs ro
    by (simp add: refreshEditor_def Let_def goog_setReadouts_returns [OF assms(1)])
qed

lemma setValue_editorBuilt:
  "editorBuilt (s\<lparr>colour := c\<rparr>) = editorBuilt s"
  "editorBuilt (s\<lparr>sourceBlock := b\<rparr>) = editorBuilt s"
  "editorBuilt (s\<lparr>fired := es\<rparr>) = editorBuilt s"
  by (simp_all add: editorBuilt_def)

lemma goog_setValue_returns:
  assumes "goog_hexToHsv c = Inr x" "editorBuilt s"
  shows "fst (setValue goog_color c s) = None"
  using assms
  by (auto simp: setValue_def Let_def fire_def setValue_editorBuilt
      intro!: goog_refreshEditor_returns split: option.splits)

subsection \<open>The brightness readout\<close>

lemma setReadouts_present:
  "(hueReadout (snd (setReadouts g c s)) = None) = (hueReadout s = None)"
  "(saturationReadout (snd (setReadouts g c s)) = None) = (saturationReadout s = None)"
  "(brightnessReadout (snd (setReadouts g c s)) = None) = (brightnessReadout s = None)"
  by (auto simp: setReadouts_def Let_def split: sum.splits option.splits prod.splits)

lemma same_config_present:
  "map_option sliderConfig a = map_option sliderConfig b \<Longrightarrow> (a = None) = (b = None)"
  by (cases a; cases b) simp_all

lemma refreshEditor_present:
  "(hueSlider (snd (refreshEditor g c s)) = None) = (hueSlider s = None)"
  "(saturationSlider (snd (refreshEditor g c s)) = None) = (saturationSlider s = None)"
  "(brightnessSlider (snd (refreshEditor g c s)) = None) = (brightnessSlider s = None)"
  "(hueReadout (snd (refreshEditor g c s)) = None) = (hueReadout s = None)"
  "(saturationReadout (snd (refreshEditor g c s)) = None) = (saturationReadout s = None)"
  "(brightnessReadout (snd (refreshEditor g c s)) = None) = (brightnessReadout s = None)"
  by (simp_all add: same_config_present [OF refreshEditor_config(1)]
      same_config_present [OF refreshEditor_config(2)]
      same_config_present [OF refreshEditor_config(3)])
    (simp_all add: refreshEditor_def Let_def setReadouts_present split: sum.splits)

lemma refreshEditor_editorBuilt: "editorBuilt (snd (refreshEditor g c s)) = editorBuilt s"
  by (simp add: editorBuilt_def refreshEditor_present)

lemma setValue_keeps_editorBuilt: "editorBuilt (snd (setValue g c s)) = editorBuilt s"
  by (simp add: setValue_def Let_def fire_def refreshEditor_editorBuilt setValue_editorBuilt
      split: option.splits)

lemma syncSliders_editorBuilt: "editorBuilt (snd (syncSliders g s)) = editorBuilt s"
  by (simp add: syncSliders_def editorBuilt_def split: sum.splits prod.splits)

lemma positionPanel_editorBuilt: "editorBuilt (snd (positionPanel s)) = editorBuilt s"
  by (simp add: editorBuilt_def positionPanel_keeps)

lemma registerListeners_editorBuilt: "editorBuilt (registerListeners s) = editorBuilt s"
  by (simp add: editorBuilt_def registerListeners_keeps)

lemma buildSliders_editorBuilt:
  "hexToHsv g (colour s) = Inr x \<Longrightarrow> editorBuilt (snd (buildSliders g s))"
  by (simp add: buildSliders_def Let_def appendChild_def getValue_def editorBuilt_def
      split: prod.splits)

lemma showEditor_editorBuilt:
  "hexToHsv g (colour s) = Inr x \<Longrightarrow> editorBuilt (snd (showEditor g s))"
  by (simp add: showEditor_def snd_andThen buildSliders_fst buildSliders_editorBuilt
      registerListeners_editorBuilt positionPanel_editorBuilt syncSliders_editorBuilt
      setValue_keeps_editorBuilt split: option.splits)

lemma goog_red: "hexToHsv goog_color ''#ff0000'' = Inr (0, 1, 255)"
  by (simp add: goog_color_def goog_hexToHsv_def goog_hexToRgb_def hexDigit_def goog_rgbToHsv_def)

lemma attachedField_simps:
  "colour attachedField = ''#ff0000''"
  "validator attachedField = None"
  "activateEyedropper attachedField = None"
  "listeners attachedField = []"
  "eventsEnabled attachedField = True"
  "sourceBlock attachedField = Some (penBlock\<lparr>colourPrimary := ''#ff0000'', colourSecondary := ''#ff0000''\<rparr>)"
  by (simp_all add: attachedField_def init_def Let_def Field_init_def getValue_def
      setValue_colour setValue_keeps setValue_sourceBlock redField_def)

lemma openField_simps:
  "colour openField = ''#ff0000''"
  "editorBuilt openField"
proof -
  show "colour openField = ''#ff0000''"
    by (simp add: openField_def showEditor_keeps attachedField_simps)
  have "hexToHsv goog_color (colour attachedField) = Inr (0, 1, 255)"
    by (simp add: attachedField_simps goog_red)
  then show "editorBuilt openField"
    unfolding openField_def by (rule showEditor_editorBuilt)
qed

lemma toFixed0_100: "toFixed0 100 = ''100''"
  by (simp add: toFixed0_def decimal.simps digit_def)

lemma toFixed0_70: "toFixed0 70 = ''70''"
  by (simp add: toFixed0_def decimal.simps digit_def)

lemma scaled_by_360: "toFixed0 \<lfloor>100 * 255 / 360 :: rat\<rfloor> = ''70''"
proof -
  have "\<lfloor>100 * 255 / 360 :: rat\<rfloor> = 70"
    by (rule floor_unique) simp_all
  then show ?thesis
    by (simp only: toFixed0_70)
qed

theorem setValue_brightness_readout_witness:
  "hueSlider openField \<noteq> None
   \<and> fst (setValue goog_color ''#ff0000'' openField) = None
   \<and> hexToHsv goog_color ''#ff0000'' = Inr (0, 1, 255)
   \<and> brightnessReadout (snd (setValue goog_color ''#ff0000'' openField)) = Some ''100''"
proof -
  have a: "hueSlider openField \<noteq> None"
    using openField_simps(2) by (simp add: editorBuilt_def)
  have b: "fst (setValue goog_color ''#ff0000'' openField) = None"
    using goog_red openField_simps(2)
    by (intro goog_setValue_returns) (simp_all add: goog_color_def)
  from setValue_brightness_readout [OF a b goog_red] a b goog_red show ?thesis
    by (simp add: toFixed0_100)
qed

text \<open>
  C2 as stated fails: with \<^verbatim>\<open>#ff0000\<close> (brightness 255) the readout shows 100, which is
  not 255 scaled by 100/360 (that is 70).
\<close>

theorem brightness_readout_counterexample:
  "hexToHsv goog_color ''#ff0000'' = Inr (0, 1, 255)
   \<and> brightnessReadout (snd (setValue goog_color ''#ff0000'' openField)) = Some ''100''
   \<and> brightnessReadout (snd (setValue goog_color ''#ff0000'' openField))
       \<noteq> Some (toFixed0 \<lfloor>100 * 255 / 360 :: rat\<rfloor>)"
proof -
  have a: "hueSlider openField \<noteq> None"
    using openField_simps(2) by (simp add: editorBuilt_def)
  have b: "fst (setValue goog_color ''#ff0000'' openField) = None"
    using goog_red openField_simps(2)
    by (intro goog_setValue_returns) (simp_all add: goog_color_def)
  have "brightnessReadout (snd (setValue goog_color ''#ff0000'' openField)) = Some ''100''"
    using refreshEditor_brightness goog_red a b
    by (auto simp: setValue_def Let_def fire_def toFixed0_100 split: option.splits)
  then show ?thesis
    unfolding scaled_by_360 by (simp add: goog_red)
qed

subsection \<open>The slider handlers and the validator\<close>

lemma commitColour_eq:
  "commitColour g c s = (if sourceBlock s = None then setValue g c s else validated g c s)"
  by (simp add: commitColour_def callValidator_def validated_def Let_def
      split: option.splits validation.splits)

text \<open>
  C1 (amended). Every slider change event on a field that is on a block consults the
  validator before committing: when the conversions of the handler succeed, the handler
  does with its candidate colour what the validator contract says (\<open>validated\<close>): it
  commits through setValue the candidate itself when there is no validator or the
  validator returns \<^verbatim>\<open>undefined\<close>, the validator's colour when it returns one, and
  leaves the state as it is when the validator returns \<^verbatim>\<open>null\<close>. On a field that is on no
  block the handler commits the candidate through setValue and the validator is not
  asked.
\<close>

theorem slider_change_validated:
  assumes "hexToHsv g (getValue s) = Inr (h, sa, v)"
    and "hsvToHex g xh sa v = Inr ch"
    and "hsvToHex g h xs v = Inr cs"
    and "hsvToHex g h sa xb = Inr cb"
  shows "hueChange g xh s = (if sourceBlock s = None then setValue g ch s else validated g ch s)
    \<and> saturationChange g xs s = (if sourceBlock s = None then setValue g cs s else validated g cs s)
    \<and> brightnessChange g xb s = (if sourceBlock s = None then setValue g cb s else validated g cb s)"
  using assms
  by (simp add: hueChange_def saturationChange_def brightnessChange_def commitColour_eq)

lemma rejected:
  assumes "sourceBlock s \<noteq> None" "validator s = Some f" "\<And>c. f c = Null"
  shows "commitColour g c s = (None, s)"
  using assms by (auto simp: commitColour_eq validated_def)

text \<open>
  C3 (amended). If the field is on a block and its validator returns \<^verbatim>\<open>null\<close> for every
  colour, no slider change event changes the stored colour (nor anything else of the
  state): after the hue, the saturation and the brightness handler, getValue returns what
  it returned before.
\<close>

theorem rejecting_validator_keeps_colour:
  assumes "sourceBlock s \<noteq> None" and "validator s = Some f" and "\<And>c. f c = Null"
  shows "snd (hueChange g x s) = s \<and> snd (saturationChange g x s) = s
    \<and> snd (brightnessChange g x s) = s
    \<and> getValue (snd (hueChange g x s)) = getValue s
    \<and> getValue (snd (saturationChange g x s)) = getValue s
    \<and> getValue (snd (brightnessChange g x s)) = getValue s"
proof -
  have "\<And>c. commitColour g c s = (None, s)"
    using assms by (rule rejected)
  then have "snd (hueChange g x s) = s" "snd (saturationChange g x s) = s"
    "snd (brightnessChange g x s) = s"
    by (simp_all add: hueChange_def saturationChange_def brightnessChange_def
        split: sum.splits prod.splits)
  then show ?thesis by simp
qed

lemma goog_green: "hsvToHex goog_color 120 1 255 = Inr ''#00ff00''"
  by code_simp

lemma goog_pink: "hsvToHex goog_color 0 (1 / 2) 255 = Inr ''#ff7f7f''"
  by code_simp

lemma goog_maroon: "hsvToHex goog_color 0 1 128 = Inr ''#800000''"
  by code_simp

lemma guardedField_simps:
  "colour guardedField = ''#ff0000''"
  "validator guardedField = Some rejectAll"
  "activateEyedropper guardedField = Some [''#00ff00'']"
  "listeners guardedField = []"
  "sourceBlock guardedField \<noteq> None"
  by (simp_all add: guardedField_def init_def Let_def Field_init_def getValue_def
      setValue_colour setValue_keeps setValue_sourceBlock redField_def)

lemma guardedOpen_simps:
  "colour guardedOpen = ''#ff0000''"
  "validator guardedOpen = Some rejectAll"
  "activateEyedropper guardedOpen = Some [''#00ff00'']"
  "sourceBlock guardedOpen \<noteq> None"
  by (simp_all add: guardedOpen_def showEditor_keeps showEditor_attached guardedField_simps)

lemma detachedOpen_simps:
  "colour detachedOpen = ''#ff0000''"
  "validator detachedOpen = Some rejectAll"
  "sourceBlock detachedOpen = None"
  by (simp_all add: detachedOpen_def showEditor_keeps showEditor_attached redField_def)

lemma reportPicks_single: "snd (reportPicks g [v] s) = snd (setValue g v s)"
  by (simp add: eyedropperCallback_def split: prod.splits option.splits)

theorem slider_change_validated_witness:
  "hexToHsv goog_color (getValue guardedOpen) = Inr (0, 1, 255)
   \<and> hsvToHex goog_color 120 1 255 = Inr ''#00ff00''
   \<and> hsvToHex goog_color 0 (1 / 2) 255 = Inr ''#ff7f7f''
   \<and> hsvToHex goog_color 0 1 128 = Inr ''#800000''
   \<and> hueChange goog_color 120 guardedOpen = validated goog_color ''#00ff00'' guardedOpen
   \<and> saturationChange goog_color (1 / 2) guardedOpen = validated goog_color ''#ff7f7f'' guardedOpen
   \<and> brightnessChange goog_color 128 guardedOpen = validated goog_color ''#800000'' guardedOpen
   \<and> validated goog_color ''#00ff00'' guardedOpen = (None, guardedOpen)"
proof -
  have a: "hexToHsv goog_color (getValue guardedOpen) = Inr (0, 1, 255)"
    by (simp add: getValue_def guardedOpen_simps goog_red)
  from slider_change_validated [OF a goog_green goog_pink goog_maroon] a
  show ?thesis
    by (simp add: guardedOpen_simps goog_green goog_pink goog_maroon validated_def rejectAll_def)
qed

theorem rejecting_validator_keeps_colour_witness:
  "sourceBlock guardedOpen \<noteq> None \<and> validator guardedOpen = Some rejectAll
   \<and> (\<forall>c. rejectAll c = Null)
   \<and> getValue (snd (hueChange goog_color 120 guardedOpen)) = ''#ff0000''
   \<and> getValue (snd (saturationChange goog_color (1 / 2) guardedOpen)) = ''#ff0000''
   \<and> getValue (snd (brightnessChange goog_color 128 guardedOpen)) = ''#ff0000''"
  using rejecting_validator_keeps_colour
    [of guardedOpen rejectAll goog_color 120]
    rejecting_validator_keeps_colour
    [of guardedOpen rejectAll goog_color "1 / 2"]
    rejecting_validator_keeps_colour
    [of guardedOpen rejectAll goog_color 128]
  by (simp add: guardedOpen_simps rejectAll_def getValue_def)

text \<open>
  C1 as stated fails twice, with a validator that rejects every colour: an eyedropper
  pick goes to setValue directly and changes the stored colour, and so does a hue change
  on a field that is on no block.
\<close>

theorem validator_bypass_counterexample:
  "validator guardedOpen = Some rejectAll
   \<and> rejectAll ''#00ff00'' = Null
   \<and> activateEyedropper guardedOpen = Some [''#00ff00'']
   \<and> getValue guardedOpen = ''#ff0000''
   \<and> getValue (snd (activateEyedropperInternal goog_color guardedOpen)) = ''#00ff00''
   \<and> validator detachedOpen = Some rejectAll
   \<and> getValue detachedOpen = ''#ff0000''
   \<and> getValue (snd (hueChange goog_color 120 detachedOpen)) = ''#00ff00''"
  by (simp add: guardedOpen_simps detachedOpen_simps rejectAll_def getValue_def
      activateEyedropperInternal_def reportPicks_single setValue_colour
      hueChange_def goog_red goog_green commitColour_eq del: reportPicks.simps)

text \<open>
  C3 as stated fails on a field that is on no block: the brightness handler commits its
  candidate although the validator rejects every colour.
\<close>

theorem detached_slider_counterexample:
  "validator detachedOpen = Some rejectAll
   \<and> (\<forall>c. rejectAll c = Null)
   \<and> getValue detachedOpen = ''#ff0000''
   \<and> getValue (snd (brightnessChange goog_color 128 detachedOpen)) = ''#800000''
   \<and> getValue (snd (brightnessChange goog_color 128 detachedOpen)) \<noteq> getValue detachedOpen"
  by (simp add: detachedOpen_simps rejectAll_def getValue_def setValue_colour
      brightnessChange_def goog_red goog_maroon commitColour_eq)

subsection \<open>getText\<close>

lemma matchDoubled_Some:
  "\<not> lineTerminator r \<Longrightarrow> \<not> lineTerminator g \<Longrightarrow> \<not> lineTerminator b \<Longrightarrow>
   matchDoubled [CHR ''#'', r, r, g, g, b, b] = Some (r, g, b)"
  by (simp add: matchDoubled_def)

lemma matchDoubled_SomeD:
  "matchDoubled str = Some (r, g, b) \<Longrightarrow>
   str = [CHR ''#'', r, r, g, g, b, b] \<and> \<not> lineTerminator r \<and> \<not> lineTerminator g
     \<and> \<not> lineTerminator b"
  by (auto simp: matchDoubled_def split: list.splits if_splits)

lemma hexChar_not_lineTerminator: "hexChar ch \<Longrightarrow> \<not> lineTerminator ch"
  by (auto simp: hexChar_def lineTerminator_def)

lemma doubledHex_D:
  "doubledHex str \<Longrightarrow>
   \<exists>r g b. str = [CHR ''#'', r, r, g, g, b, b] \<and> hexChar r \<and> hexChar g \<and> hexChar b"
  by (auto simp: doubledHex_def split: list.splits)

text \<open>
  C6 (amended). When the stored string is a hash followed by three doubled characters,
  none of them a line terminator, getText returns the hash and one character of each
  pair; this covers every \<^verbatim>\<open>#rrggbb\<close> whose channels have two equal hexadecimal digits.
  For every other stored string getText returns the string unchanged.
\<close>

theorem getText_compacts:
  "(colour s = [CHR ''#'', r, r, g, g, b, b] \<and> \<not> lineTerminator r \<and> \<not> lineTerminator g
      \<and> \<not> lineTerminator b \<longrightarrow> getText s = [CHR ''#'', r, g, b])
   \<and> (doubledHex (colour s) \<longrightarrow>
        (\<exists>r g b. colour s = [CHR ''#'', r, r, g, g, b, b] \<and> getText s = [CHR ''#'', r, g, b]))
   \<and> ((\<nexists>r g b. colour s = [CHR ''#'', r, r, g, g, b, b] \<and> \<not> lineTerminator r
          \<and> \<not> lineTerminator g \<and> \<not> lineTerminator b) \<longrightarrow> getText s = colour s)"
proof (intro conjI impI)
  assume "colour s = [CHR ''#'', r, r, g, g, b, b] \<and> \<not> lineTerminator r \<and> \<not> lineTerminator g
      \<and> \<not> lineTerminator b"
  then show "getText s = [CHR ''#'', r, g, b]"
    by (simp add: getText_def matchDoubled_Some)
next
  assume "doubledHex (colour s)"
  from doubledHex_D [OF this] obtain r g b where
    c: "colour s = [CHR ''#'', r, r, g, g, b, b]" and h: "hexChar r" "hexChar g" "hexChar b"
    by blast
  from h have "matchDoubled (colour s) = Some (r, g, b)"
    unfolding c by (intro matchDoubled_Some hexChar_not_lineTerminator)
  with c show "\<exists>r g b. colour s = [CHR ''#'', r, r, g, g, b, b] \<and> getText s = [CHR ''#'', r, g, b]"
    by (auto simp: getText_def)
next
  assume none: "\<nexists>r g b. colour s = [CHR ''#'', r, r, g, g, b, b] \<and> \<not> lineTerminator r
          \<and> \<not> lineTerminator g \<and> \<not> lineTerminator b"
  have "matchDoubled (colour s) = None"
  proof (cases "matchDoubled (colour s)")
    case None
    then show ?thesis .
  next
    case (Some t)
    obtain r g b where "t = (r, g, b)" by (cases t) auto
    with Some matchDoubled_SomeD [of "colour s" r g b] none show ?thesis by blast
  qed
  then show "getText s = colour s"
    by (simp add: getText_def)
qed

lemma blue_not_doubled:
  "\<nexists>r g b. ''#4c97ff'' = [CHR ''#'', r, r, g, g, b, b] \<and> \<not> lineTerminator r
          \<and> \<not> lineTerminator g \<and> \<not> lineTerminator b"
  by simp

theorem getText_compacts_witness:
  "doubledHex ''#ff0000''
   \<and> \<not> lineTerminator CHR ''f'' \<and> \<not> lineTerminator CHR ''0''
   \<and> getText redField = ''#f00''
   \<and> (\<nexists>r g b. colour (redField\<lparr>colour := ''#4c97ff''\<rparr>) = [CHR ''#'', r, r, g, g, b, b]
          \<and> \<not> lineTerminator r \<and> \<not> lineTerminator g \<and> \<not> lineTerminator b)
   \<and> getText (redField\<lparr>colour := ''#4c97ff''\<rparr>) = ''#4c97ff''"
proof -
  have a: "doubledHex ''#ff0000''"
    by (simp add: doubledHex_def hexChar_def)
  have b: "\<not> lineTerminator CHR ''f''" "\<not> lineTerminator CHR ''0''"
    by (simp_all add: lineTerminator_def)
  have c: "colour redField = ''#ff0000''"
    by (simp add: redField_def)
  from getText_compacts [of redField "CHR ''f''" "CHR ''0''" "CHR ''0''"] b c
  have d: "getText redField = ''#f00''"
    by simp
  from getText_compacts [of "redField\<lparr>colour := ''#4c97ff''\<rparr>"] blue_not_doubled
  have e: "getText (redField\<lparr>colour := ''#4c97ff''\<rparr>) = ''#4c97ff''"
    by simp
  from a b d e blue_not_doubled show ?thesis
    by simp
qed

text \<open>
  C6 as stated fails: \<^verbatim>\<open>#gghhii\<close> is not of the form the claim names (its characters are
  no hexadecimal digits), and getText does not return it unchanged.
\<close>

theorem getText_counterexample:
  "\<not> doubledHex ''#gghhii''
   \<and> getText (redField\<lparr>colour := ''#gghhii''\<rparr>) = ''#ghi''
   \<and> getText (redField\<lparr>colour := ''#gghhii''\<rparr>) \<noteq> colour (redField\<lparr>colour := ''#gghhii''\<rparr>)"
  by (simp add: doubledHex_def hexChar_def getText_def matchDoubled_def lineTerminator_def)


subsection \<open>Opening and closing, on the example states\<close>

theorem open_close_no_listeners_witness:
  "listeners eyedropperField = []
   \<and> hexToHsv goog_color (getValue eyedropperField) = Inr (0, 1, 255)
   \<and> length (listeners (snd (showEditor goog_color eyedropperField))) = 4
   \<and> listeners (widgetDispose (snd (showEditor goog_color eyedropperField))) = []"
proof -
  have a: "listeners eyedropperField = []"
    by (simp add: eyedropperField_def attachedField_simps)
  have b: "hexToHsv goog_color (getValue eyedropperField) = Inr (0, 1, 255)"
    by (simp add: eyedropperField_def getValue_def attachedField_simps goog_red)
  have c: "activateEyedropper eyedropperField = Some [''#00ff00'']"
    by (simp add: eyedropperField_def)
  from open_close_no_listeners [of goog_color eyedropperField "(0, 1, 255)"] a b c
  show ?thesis
    by simp
qed

theorem showEditor_sliders_witness:
  "hexToHsv goog_color (getValue attachedField) = Inr (0, 1, 255)
   \<and> map_option minimum (hueSlider openField) = Some (Some 0)
   \<and> map_option maximum (hueSlider openField) = Some (Some 359)
   \<and> map_option unitIncrement (hueSlider openField) = Some (Some 5)
   \<and> map_option step (hueSlider openField) = Some None
   \<and> map_option minimum (saturationSlider openField) = Some (Some (1 / 100))
   \<and> map_option maximum (saturationSlider openField) = Some (Some (99 / 100))
   \<and> map_option unitIncrement (saturationSlider openField) = Some (Some (1 / 100))
   \<and> map_option step (saturationSlider openField) = Some (Some (1 / 1000))
   \<and> map_option minimum (brightnessSlider openField) = Some (Some 5)
   \<and> map_option maximum (brightnessSlider openField) = Some (Some 255)
   \<and> map_option unitIncrement (brightnessSlider openField) = Some (Some 2)
   \<and> map_option step (brightnessSlider openField) = Some None"
proof -
  have a: "hexToHsv goog_color (getValue attachedField) = Inr (0, 1, 255)"
    by (simp add: getValue_def attachedField_simps goog_red)
  from showEditor_sliders [OF a] a show ?thesis
    unfolding openField_def by auto
qed

text \<open>
  C9 as stated fails whichever parameter "step" names. As the slider's step: none is set
  on the hue and the brightness slider. As the unit increment: the saturation slider's is
  0.01, not 0.001.
\<close>

theorem slider_step_counterexample:
  "map_option step (hueSlider openField) \<noteq> Some (Some 5)
   \<and> map_option step (brightnessSlider openField) \<noteq> Some (Some 2)
   \<and> map_option unitIncrement (saturationSlider openField) \<noteq> Some (Some (1 / 1000))"
proof -
  have a: "hexToHsv goog_color (colour attachedField) = Inr (0, 1, 255)"
    by (simp add: attachedField_simps goog_red)
  from showEditor_config [OF a] show ?thesis
    unfolding openField_def by (auto simp: sliderConfig_def)
qed

subsection \<open>setValue and init, on the example states\<close>

text \<open>
  On the block, setting red to green fires one event, and setting green again none; init
  fires none although events are enabled; and with the panel open, setValue of a string
  that is no colour throws in the refresh, after the string was stored.
\<close>

lemma attachedField_more:
  "name attachedField = ''COLOUR''"
  "fired attachedField = []"
  by (simp_all add: attachedField_def init_def Let_def Field_init_def getValue_def
      setValue_keeps setValue_fired redField_def)

theorem setValue_event_witness:
  "fired (snd (setValue goog_color ''#00ff00'' attachedField)) =
     [BlockChange ''block1'' ''field'' ''COLOUR'' ''#ff0000'' ''#00ff00'']
   \<and> fired (snd (setValue goog_color ''#00ff00'' (snd (setValue goog_color ''#00ff00'' attachedField)))) =
     [BlockChange ''block1'' ''field'' ''COLOUR'' ''#ff0000'' ''#00ff00'']"
  using setValue_event [of goog_color "''#00ff00''" attachedField]
  by (simp add: attachedField_simps attachedField_more penBlock_def)

theorem init_no_event_witness:
  "eventsEnabled redField \<and> fired (snd (init goog_color penBlock redField)) = []"
  using init_no_event [of goog_color penBlock redField]
  by (simp add: redField_def)

lemma goog_malformed: "hexToHsv goog_color ''red'' = Inl (Error ''red'')"
  by (simp add: goog_color_def goog_hexToHsv_def goog_hexToRgb_def)

theorem setValue_getValue_witness:
  "fst (setValue goog_color ''red'' openField) = Some (Error ''red'')
   \<and> getValue (snd (setValue goog_color ''red'' openField)) = ''red''"
proof -
  from openField_simps(2) obtain hs where hs: "hueSlider openField = Some hs"
    by (auto simp: editorBuilt_def)
  have "fst (setValue goog_color ''red'' openField) = Some (Error ''red'')"
    using hs
    by (simp add: setValue_def Let_def fire_def refreshEditor_def setBackground_def
        makeHueGradient_def goog_malformed split: option.splits)
  with setValue_getValue [of goog_color "''red''" openField] show ?thesis
    by simp
qed

end
